theory Spec2Isabelle
  imports Complex_Main
begin

section \<open>The registry of gepetto\_viewer\_rerun/client.py\<close>

text \<open>
  The module keeps three registries in one \<open>Gui\<close> object (windows, scenes, entities) and
  calls the rerun backend when an entity becomes visible in a scene. The embedding below
  follows \<open>client.py\<close> function by function. Mutation is explicit state passing; the two
  effects of the module that are not registry state, the calls into rerun and the messages
  handed to the logger, are kept as append-only traces in the state. A Python exception is
  a value: every operation returns a pair of its outcome (\<open>Inl\<close> the exception, \<open>Inr\<close> the
  returned value) and the state it leaves behind, since a registry mutated before a raise
  stays mutated.
\<close>

subsection \<open>Archetype kinds and payloads\<close>

text \<open>\<open>class Archetype(Enum)\<close>: the index of a bucket of \<open>entityList\<close>.\<close>

datatype Archetype =
  ARROWS3D | BOXES3D | CAPSULES3D | LINESTRIPS3D | MESH3D | MESH_FROM_PATH | POINTS3D

text \<open>The members in the order of their values 0 to 6, the order the buckets are scanned in.\<close>

definition archetypes :: "Archetype list" where
  "archetypes = [ARROWS3D, BOXES3D, CAPSULES3D, LINESTRIPS3D, MESH3D, MESH_FROM_PATH, POINTS3D]"

fun Archetype_name :: "Archetype \<Rightarrow> string" where
  "Archetype_name ARROWS3D = ''ARROWS3D''"
| "Archetype_name BOXES3D = ''BOXES3D''"
| "Archetype_name CAPSULES3D = ''CAPSULES3D''"
| "Archetype_name LINESTRIPS3D = ''LINESTRIPS3D''"
| "Archetype_name MESH3D = ''MESH3D''"
| "Archetype_name MESH_FROM_PATH = ''MESH_FROM_PATH''"
| "Archetype_name POINTS3D = ''POINTS3D''"

text \<open>
  The payloads the module builds: the six rerun archetypes with the fields the module
  passes to their constructors, and \<open>MeshFromPath\<close>. Numbers (\<open>Union[int, float]\<close>) are
  reals; a field the caller may leave out is an option.

  Modelled from the spec: \<open>MeshFromPath\<close> is declared in \<open>entity.py\<close>, which is not among the
  sources; the module reads only its \<open>path\<close>.
\<close>

datatype archetype =
    Arrows3D "real list list" "real list list" "real list list" "string list"
      \<comment> \<open>radii, vectors, colors, labels\<close>
  | Boxes3D "real list list" "real list list" string "string list option"
      \<comment> \<open>sizes, colors, fill\_mode, labels\<close>
  | Capsules3D "real list" "real list" "real list list"
      \<comment> \<open>lengths, radii, colors\<close>
  | LineStrips3D "real list list list" "real list" "real list list" "string list"
      \<comment> \<open>strips, radii, colors, labels\<close>
  | Mesh3D "real list list" "nat list list option" "real list list"
      \<comment> \<open>vertex\_positions, triangle\_indices, vertex\_colors\<close>
  | Points3D "real list list" "real list list" "real list list" "string list"
      \<comment> \<open>positions, radii, colors, labels\<close>
  | MeshFromPath string
      \<comment> \<open>path\<close>

text \<open>
  \<open>archetype.colors.pa_array\<close>: the colour batch of a payload. \<open>Mesh3D\<close> carries
  \<open>vertex_colors\<close> and \<open>MeshFromPath\<close> a path only: neither has an attribute \<open>colors\<close>, and
  reading it raises \<open>AttributeError\<close> (\<open>None\<close> here).
\<close>

fun archetype_colors :: "archetype \<Rightarrow> real list list option" where
  "archetype_colors (Arrows3D radii vectors colors labels) = Some colors"
| "archetype_colors (Boxes3D sizes colors fill_mode labels) = Some colors"
| "archetype_colors (Capsules3D lengths radii colors) = Some colors"
| "archetype_colors (LineStrips3D strips radii colors labels) = Some colors"
| "archetype_colors (Mesh3D vertex_positions triangle_indices vertex_colors) = None"
| "archetype_colors (Points3D positions radii colors labels) = Some colors"
| "archetype_colors (MeshFromPath path) = None"

text \<open>\<open>archetype.path\<close>: only \<open>MeshFromPath\<close> has it.\<close>

fun archetype_path :: "archetype \<Rightarrow> string option" where
  "archetype_path (MeshFromPath path) = Some path"
| "archetype_path _ = None"

subsection \<open>Recordings, scenes, entities\<close>

text \<open>
  A recording stream as \<open>rr.new_recording(application_id, recording_id, spawn=True)\<close>
  returns it. Every call returns a new object: the third component tells two handles
  acquired under the same ids apart (the number of backend calls made before).
  \<open>to_native\<close> is the backend-native form of a handle.
\<close>

datatype recording = Recording string string nat

datatype native_recording = Native recording

definition to_native :: "recording \<Rightarrow> native_recording" where
  "to_native r = Native r"

text \<open>
  Modelled from the spec: class \<open>Scene\<close> of \<open>scene.py\<close>, which is not among the sources.
  A scene is a name and an optional recording handle; it is created with no recording,
  and \<open>setRec\<close> attaches a handle (a plain assignment: a handle that is there is
  overwritten).
\<close>

record Scene =
  scene_name :: string
  rec :: "recording option"

definition Scene_init :: "string \<Rightarrow> Scene" where
  "Scene_init sceneName = \<lparr>scene_name = sceneName, rec = None\<rparr>"

definition setRec :: "Scene \<Rightarrow> recording \<Rightarrow> Scene" where
  "setRec scene r = scene\<lparr>rec := Some r\<rparr>"

text \<open>
  Modelled from the spec: class \<open>Entity\<close> of \<open>entity.py\<close>, which is not among the sources.
  An entity is a name, a payload and the set of scenes it has been published into. The
  scenes are references to the \<open>Scene\<close> objects of \<open>sceneList\<close>: a reference is the
  position of the scene in \<open>sceneList\<close>, which only ever grows at its end. The set is kept
  as the list of its members in the order they were added. \<open>Entity(name, archetype)\<close>
  starts with no scene, \<open>Entity(name, archetype, scene)\<close> with that one scene, and
  \<open>addScene\<close> inserts a scene (idempotent).
\<close>

record Entity =
  name :: string
  archetype :: archetype
  scenes :: "nat list"

definition Entity_init :: "string \<Rightarrow> archetype \<Rightarrow> nat option \<Rightarrow> Entity" where
  "Entity_init n a scene =
     \<lparr>name = n, archetype = a, scenes = (case scene of None \<Rightarrow> [] | Some s \<Rightarrow> [s])\<rparr>"

definition addScene :: "Entity \<Rightarrow> nat \<Rightarrow> Entity" where
  "addScene entity scene =
     (if scene \<in> set (scenes entity) then entity
      else entity\<lparr>scenes := scenes entity @ [scene]\<rparr>)"

subsection \<open>Effects: backend calls, logger messages, exceptions\<close>

datatype rr_call =
    NewRecording string string
      \<comment> \<open>\<open>rr.new_recording(application_id, recording_id, spawn=True)\<close>\<close>
  | Log string archetype "recording option"
      \<comment> \<open>\<open>rr.log(entity_path, archetype, recording)\<close>\<close>
  | LogFileFromPath string native_recording
      \<comment> \<open>\<open>rr.log_file_from_path(file_path, recording)\<close>\<close>

datatype level = INFO | ERROR

text \<open>The messages of the module, one constructor for each format string, with its arguments.\<close>

datatype message =
    CreateWindowNote
  | CreateSceneNote
  | UnknownSceneName string
  | UnknownWindowName string
  | ParseEntityLogged string string string
      \<comment> \<open>entityType.name, archetypeName, name of the scene\<close>
  | ParseEntityDeferred string string
      \<comment> \<open>entityType.name, archetypeName\<close>
  | ResizeArrowLogged string string string
      \<comment> \<open>arrowName, entityName, sceneName\<close>
  | ResizeArrowNotInScene string string string
      \<comment> \<open>arrowName, entityName, sceneName\<close>
  | ResizeArrowMissing string
  | ResizeArrowRelogged string string
      \<comment> \<open>entity.name, scene.name\<close>
  | ResizeArrowResized string
  | LoggingNamed string string
      \<comment> \<open>the class the message names, entity.name\<close>
  | AddToGroupNoScene string
  | AddToGroupNoEntity string

datatype py_error = AttributeError | AssertionError | IndexError

subsection \<open>The Gui object\<close>

text \<open>
  \<open>entityList\<close> is a list with one bucket for each member of \<open>Archetype\<close>, indexed by
  \<open>entityType.value\<close> only: a function from the kind to its bucket.
\<close>

record Gui =
  sceneList :: "Scene list"
  windowList :: "string list"
  entityList :: "Archetype \<Rightarrow> Entity list"
  backend :: "rr_call list"
  logger :: "(level \<times> message) list"

definition Gui_init :: Gui where
  "Gui_init = \<lparr>sceneList = [], windowList = [], entityList = (\<lambda>_. []),
               backend = [], logger = []\<rparr>"

definition rr_invoke :: "Gui \<Rightarrow> rr_call \<Rightarrow> Gui" where
  "rr_invoke g c = g\<lparr>backend := backend g @ [c]\<rparr>"

definition logger_info :: "Gui \<Rightarrow> message \<Rightarrow> Gui" where
  "logger_info g m = g\<lparr>logger := logger g @ [(INFO, m)]\<rparr>"

definition logger_error :: "Gui \<Rightarrow> message \<Rightarrow> Gui" where
  "logger_error g m = g\<lparr>logger := logger g @ [(ERROR, m)]\<rparr>"

definition createWindow :: "Gui \<Rightarrow> string \<Rightarrow> (py_error + string) \<times> Gui" where
  "createWindow g n =
     (Inr n, logger_info (g\<lparr>windowList := windowList g @ [n]\<rparr>) CreateWindowNote)"

definition createScene :: "Gui \<Rightarrow> string \<Rightarrow> (py_error + unit) \<times> Gui" where
  "createScene g sceneName =
     (Inr (), logger_info (g\<lparr>sceneList := sceneList g @ [Scene_init sceneName]\<rparr>) CreateSceneNote)"

text \<open>\<open>_getSceneIndex\<close>: the index of the first scene of that name, or -1.\<close>

fun scene_index :: "Scene list \<Rightarrow> string \<Rightarrow> nat \<Rightarrow> int" where
  "scene_index [] sceneName index = -1"
| "scene_index (scene # ss) sceneName index =
     (if scene_name scene = sceneName then int index else scene_index ss sceneName (Suc index))"

definition getSceneIndex :: "Gui \<Rightarrow> string \<Rightarrow> int" where
  "getSceneIndex g sceneName = scene_index (sceneList g) sceneName 0"

definition addSceneToWindow :: "Gui \<Rightarrow> string \<Rightarrow> string \<Rightarrow> (py_error + bool) \<times> Gui" where
  "addSceneToWindow g sceneName wid =
     (let index = getSceneIndex g sceneName in
      if index = -1 then (Inr False, logger_error g (UnknownSceneName sceneName))
      else if wid \<notin> set (windowList g) then (Inr False, logger_error g (UnknownWindowName wid))
      else
        let r = Recording wid sceneName (length (backend g));
            g1 = rr_invoke g (NewRecording wid sceneName)
        in (Inr True,
            g1\<lparr>sceneList := (sceneList g1)[nat index := setRec (sceneList g1 ! nat index) r]\<rparr>))"

subsection \<open>Name resolution and entity creation\<close>

text \<open>\<open>str.find("/")\<close>: the index of the first \<open>/\<close>, or -1.\<close>

definition find_slash :: "string \<Rightarrow> int" where
  "find_slash s =
     (if CHR ''/'' \<in> set s then int (length (takeWhile (\<lambda>c. c \<noteq> CHR ''/'') s)) else -1)"

text \<open>\<open>self.entityList[entityType.value].append(entity)\<close>\<close>

definition append_entity :: "Gui \<Rightarrow> Archetype \<Rightarrow> Entity \<Rightarrow> Gui" where
  "append_entity g entityType entity =
     g\<lparr>entityList := (entityList g)(entityType := entityList g entityType @ [entity])\<rparr>"

text \<open>
  \<open>_parseEntity\<close>, the branch taken when the name has a \<open>/\<close> that is not its last
  character and the prefix before it names a scene (lines 124 to 147): \<open>charIndex\<close> and
  \<open>sceneIndex\<close> are the two indices found. The entity is appended before the backend is
  called, so an \<open>AttributeError\<close> of the file-load branch (a payload with no \<open>path\<close>, a scene
  whose \<open>rec\<close> is \<open>None\<close>) leaves it registered.
\<close>

definition parseEntity_scene ::
  "Gui \<Rightarrow> string \<Rightarrow> archetype \<Rightarrow> Archetype \<Rightarrow> nat \<Rightarrow> nat \<Rightarrow> (py_error + unit) \<times> Gui" where
  "parseEntity_scene g archetypeName a entityType charIndex sceneIndex =
     (let entityName = drop (charIndex + 1) archetypeName;
          entity = Entity_init entityName a (Some sceneIndex);
          g1 = append_entity g entityType entity;
          scene = sceneList g1 ! sceneIndex;
          msg = ParseEntityLogged (Archetype_name entityType) archetypeName (scene_name scene)
      in
        if entityType = MESH_FROM_PATH then
          (case archetype_path (archetype entity) of
             None \<Rightarrow> (Inl AttributeError, g1)
           | Some path \<Rightarrow>
               (case rec scene of
                  None \<Rightarrow> (Inl AttributeError, g1)
                | Some r \<Rightarrow>
                    (Inr (), logger_info (rr_invoke g1 (LogFileFromPath path (to_native r))) msg)))
        else
          (Inr (), logger_info (rr_invoke g1 (Log entityName (archetype entity) (rec scene))) msg))"

text \<open>The last lines of \<open>_parseEntity\<close> (149 to 155): the entity waits for \<open>addToGroup\<close>.\<close>

definition parseEntity_wait ::
  "Gui \<Rightarrow> string \<Rightarrow> archetype \<Rightarrow> Archetype \<Rightarrow> (py_error + unit) \<times> Gui" where
  "parseEntity_wait g archetypeName a entityType =
     (let entity = Entity_init archetypeName a None;
          g1 = append_entity g entityType entity
      in (Inr (), logger_info g1 (ParseEntityDeferred (Archetype_name entityType) archetypeName)))"

text \<open>
  \<open>_parseEntity\<close>. Its two assertions (the payload is not \<open>None\<close>, the kind is an
  \<open>Archetype\<close>) hold by the types.
\<close>

definition parseEntity ::
  "Gui \<Rightarrow> string \<Rightarrow> archetype \<Rightarrow> Archetype \<Rightarrow> (py_error + unit) \<times> Gui" where
  "parseEntity g archetypeName a entityType =
     (let charIndex = find_slash archetypeName in
      if charIndex \<noteq> -1 \<and> charIndex \<noteq> int (length archetypeName) - 1 then
        let sceneName = take (nat charIndex) archetypeName;
            sceneIndex = getSceneIndex g sceneName
        in
          if sceneIndex \<noteq> -1 then
            parseEntity_scene g archetypeName a entityType (nat charIndex) (nat sceneIndex)
          else parseEntity_wait g archetypeName a entityType
      else parseEntity_wait g archetypeName a entityType)"

text \<open>
  \<open>_getEntity\<close> returns the first entity of that name, scanning the buckets in the order
  of the kinds and each bucket from its front. The entity is returned by reference: the
  reference is the kind of the bucket and the position in it.
  A caller tests the result with \<open>if entity\<close>: an entity object is true, \<open>None\<close> is not.
\<close>

fun bucket_find :: "Entity list \<Rightarrow> string \<Rightarrow> nat option" where
  "bucket_find [] entityName = None"
| "bucket_find (entity # es) entityName =
     (if name entity = entityName then Some 0 else map_option Suc (bucket_find es entityName))"

fun buckets_find ::
  "(Archetype \<Rightarrow> Entity list) \<Rightarrow> Archetype list \<Rightarrow> string \<Rightarrow> (Archetype \<times> nat) option" where
  "buckets_find el [] entityName = None"
| "buckets_find el (k # ks) entityName =
     (case bucket_find (el k) entityName of
        Some i \<Rightarrow> Some (k, i)
      | None \<Rightarrow> buckets_find el ks entityName)"

definition getEntity :: "Gui \<Rightarrow> string \<Rightarrow> (Archetype \<times> nat) option" where
  "getEntity g entityName = buckets_find (entityList g) archetypes entityName"

definition entity_at :: "Gui \<Rightarrow> Archetype \<times> nat \<Rightarrow> Entity" where
  "entity_at g r = entityList g (fst r) ! snd r"

text \<open>An assignment to a field of the entity a reference points to.\<close>

definition entity_update :: "Gui \<Rightarrow> Archetype \<times> nat \<Rightarrow> Entity \<Rightarrow> Gui" where
  "entity_update g r entity =
     g\<lparr>entityList := (entityList g)(fst r := (entityList g (fst r))[snd r := entity])\<rparr>"

text \<open>
  \<open>_isEntityInScene\<close>, for an entity that exists: the scenes are compared as objects,
  that is by reference.
\<close>

fun scene_in :: "nat \<Rightarrow> nat list \<Rightarrow> bool" where
  "scene_in scene [] = False"
| "scene_in scene (s # ss) = (if scene = s then True else scene_in scene ss)"

definition isEntityInScene :: "Entity \<Rightarrow> nat \<Rightarrow> bool" where
  "isEntityInScene entity scene =
     (if scenes entity \<noteq> [] then scene_in scene (scenes entity) else False)"

subsection \<open>The primitives\<close>

text \<open>
  Each \<open>add\<close> function builds its payload, hands it to \<open>_parseEntity\<close> and returns
  \<open>True\<close>. The assertions on the types of the arguments hold by the types here; the one
  assertion on a shape (\<open>addTriangleFace\<close>: three coordinates for each position) is a
  branch.
\<close>

definition return_True :: "(py_error + unit) \<times> Gui \<Rightarrow> (py_error + bool) \<times> Gui" where
  "return_True r = (case fst r of Inl e \<Rightarrow> (Inl e, snd r) | Inr u \<Rightarrow> (Inr True, snd r))"

definition addFloor :: "Gui \<Rightarrow> string \<Rightarrow> (py_error + bool) \<times> Gui" where
  "addFloor g floorName =
     (let floor = Boxes3D [[200, 200, 0.5]] [[125, 125, 125]] ''Solid'' None
      in return_True (parseEntity g floorName floor BOXES3D))"

definition addBox ::
  "Gui \<Rightarrow> string \<Rightarrow> real \<Rightarrow> real \<Rightarrow> real \<Rightarrow> real list \<Rightarrow> (py_error + bool) \<times> Gui" where
  "addBox g boxName boxSize1 boxSize2 boxSize3 RGBAcolor =
     (let box = Boxes3D [[boxSize1, boxSize2, boxSize3]] [RGBAcolor] ''Solid'' (Some [boxName])
      in return_True (parseEntity g boxName box BOXES3D))"

text \<open>
  \<open>angle = np.arange(start=0, stop=tau, step=tau)\<close> is the one angle 0, so the arrow has
  the one vector \<open>[sin 0 * length, 0, cos 0 * length]\<close>. \<open>addArrow\<close> passes \<open>[RGBAcolor]\<close>
  as colours, \<open>resizeArrow\<close> the colour batch of the payload it replaces.
\<close>

definition createArrow :: "string \<Rightarrow> real \<Rightarrow> real \<Rightarrow> real list list \<Rightarrow> archetype" where
  "createArrow arrowName radius len colors =
     Arrows3D [[radius]] [[sin 0 * len, 0, cos 0 * len]] colors [arrowName]"

definition addArrow ::
  "Gui \<Rightarrow> string \<Rightarrow> real \<Rightarrow> real \<Rightarrow> real list \<Rightarrow> (py_error + bool) \<times> Gui" where
  "addArrow g n radius len RGBAcolor =
     (let arrow = Arrows3D [[radius]] [[sin 0 * len, 0, cos 0 * len]] [RGBAcolor] [n]
      in return_True (parseEntity g n arrow ARROWS3D))"

definition addCapsule ::
  "Gui \<Rightarrow> string \<Rightarrow> real \<Rightarrow> real \<Rightarrow> real list \<Rightarrow> (py_error + bool) \<times> Gui" where
  "addCapsule g n radius height RGBAcolor =
     (let capsule = Capsules3D [height] [radius] [RGBAcolor]
      in return_True (parseEntity g n capsule CAPSULES3D))"

definition addLine ::
  "Gui \<Rightarrow> string \<Rightarrow> real list \<Rightarrow> real list \<Rightarrow> real list \<Rightarrow> (py_error + bool) \<times> Gui" where
  "addLine g lineName pos1 pos2 RGBAcolor =
     (let line = LineStrips3D [[pos1, pos2]] [0.1] [RGBAcolor] [lineName]
      in return_True (parseEntity g lineName line LINESTRIPS3D))"

definition addSquareFace ::
  "Gui \<Rightarrow> string \<Rightarrow> real list \<Rightarrow> real list \<Rightarrow> real list \<Rightarrow> real list \<Rightarrow> real list
     \<Rightarrow> (py_error + bool) \<times> Gui" where
  "addSquareFace g faceName pos1 pos2 pos3 pos4 RGBAcolor =
     (let mesh = Mesh3D [pos1, pos2, pos3, pos4]
                   (Some [[0, 1, 2], [0, 1, 3], [0, 2, 3], [1, 2, 3]]) [RGBAcolor]
      in return_True (parseEntity g faceName mesh MESH3D))"

definition addTriangleFace ::
  "Gui \<Rightarrow> string \<Rightarrow> real list \<Rightarrow> real list \<Rightarrow> real list \<Rightarrow> real list
     \<Rightarrow> (py_error + bool) \<times> Gui" where
  "addTriangleFace g faceName pos1 pos2 pos3 RGBAcolor =
     (if \<not> (length pos1 = 3 \<and> length pos2 = 3 \<and> length pos3 = 3) then (Inl AssertionError, g)
      else
        let mesh = Mesh3D [pos1, pos2, pos3] None [RGBAcolor]
        in return_True (parseEntity g faceName mesh MESH3D))"

definition addSphere ::
  "Gui \<Rightarrow> string \<Rightarrow> real \<Rightarrow> real list \<Rightarrow> (py_error + bool) \<times> Gui" where
  "addSphere g sphereName radius RGBAcolor =
     (let sphere = Points3D [[0, 0, 0]] [[radius]] [RGBAcolor] [sphereName]
      in return_True (parseEntity g sphereName sphere POINTS3D))"

subsection \<open>resizeArrow\<close>

text \<open>
  The branch of a name with a scene prefix (lines 264 to 286). Reading the colours of
  the payload comes first in the arguments of \<open>createArrow\<close>, before anything is changed.
\<close>

definition resizeArrow_scene ::
  "Gui \<Rightarrow> string \<Rightarrow> real \<Rightarrow> real \<Rightarrow> nat \<Rightarrow> nat \<Rightarrow> (py_error + bool) \<times> Gui" where
  "resizeArrow_scene g arrowName radius len charIndex sceneIndex =
     (let sceneName = take charIndex arrowName;
          entityName = drop (charIndex + 1) arrowName;
          entity = getEntity g entityName;
          scene = sceneList g ! sceneIndex
      in
        if entity \<noteq> None \<and> isEntityInScene (entity_at g (the entity)) sceneIndex then
          (case archetype_colors (archetype (entity_at g (the entity))) of
             None \<Rightarrow> (Inl AttributeError, g)
           | Some colors \<Rightarrow>
               let newArrow = createArrow arrowName radius len colors;
                   e1 = (entity_at g (the entity))\<lparr>archetype := newArrow\<rparr>;
                   g1 = entity_update g (the entity) e1;
                   g2 = rr_invoke g1 (Log (name e1) (archetype e1) (rec scene))
               in (Inr True, logger_info g2 (ResizeArrowLogged arrowName entityName sceneName)))
        else
          (Inr False, logger_error g (ResizeArrowNotInScene arrowName entityName sceneName)))"

text \<open>The loop of lines 298 to 304: one log call and one message for each scene of the entity.\<close>

fun relog :: "Gui \<Rightarrow> Entity \<Rightarrow> nat list \<Rightarrow> Gui" where
  "relog g entity [] = g"
| "relog g entity (s # ss) =
     (let scene = sceneList g ! s;
          g1 = rr_invoke g (Log (name entity) (archetype entity) (rec scene));
          g2 = logger_info g1 (ResizeArrowRelogged (name entity) (scene_name scene))
      in relog g2 entity ss)"

text \<open>The lines after the scene branch (288 to 310), for a name taken as a whole.\<close>

definition resizeArrow_bare ::
  "Gui \<Rightarrow> string \<Rightarrow> real \<Rightarrow> real \<Rightarrow> (py_error + bool) \<times> Gui" where
  "resizeArrow_bare g arrowName radius len =
     (case getEntity g arrowName of
        None \<Rightarrow> (Inr False, logger_error g (ResizeArrowMissing arrowName))
      | Some r \<Rightarrow>
          (case archetype_colors (archetype (entity_at g r)) of
             None \<Rightarrow> (Inl AttributeError, g)
           | Some colors \<Rightarrow>
               let newArrow = createArrow arrowName radius len colors;
                   e1 = (entity_at g r)\<lparr>archetype := newArrow\<rparr>;
                   g1 = entity_update g r e1
               in
                 if scenes e1 \<noteq> [] then (Inr True, relog g1 e1 (scenes e1))
                 else (Inr True, logger_info g1 (ResizeArrowResized (name e1)))))"

definition resizeArrow :: "Gui \<Rightarrow> string \<Rightarrow> real \<Rightarrow> real \<Rightarrow> (py_error + bool) \<times> Gui" where
  "resizeArrow g arrowName radius len =
     (let charIndex = find_slash arrowName in
      if charIndex \<noteq> -1 \<and> charIndex \<noteq> int (length arrowName) - 1 then
        let sceneName = take (nat charIndex) arrowName;
            sceneIndex = getSceneIndex g sceneName
        in
          if sceneIndex \<noteq> -1 then
            resizeArrow_scene g arrowName radius len (nat charIndex) (nat sceneIndex)
          else resizeArrow_bare g arrowName radius len
      else resizeArrow_bare g arrowName radius len)"

subsection \<open>addToGroup\<close>

text \<open>\<open>_getRecording\<close>: the \<open>rec\<close> of the first scene of that name, \<open>None\<close> when there is none.\<close>

fun scene_rec :: "Scene list \<Rightarrow> string \<Rightarrow> recording option" where
  "scene_rec [] recName = None"
| "scene_rec (scene # ss) recName =
     (if scene_name scene = recName then rec scene else scene_rec ss recName)"

definition getRecording :: "Gui \<Rightarrow> string \<Rightarrow> recording option" where
  "getRecording g recName = scene_rec (sceneList g) recName"

text \<open>The class a payload is an instance of, as the message of \<open>_logArchetype\<close> names it.\<close>

fun logged_as :: "archetype \<Rightarrow> string" where
  "logged_as (Arrows3D radii vectors colors labels) = ''Arrows3D''"
| "logged_as (Boxes3D sizes colors fill_mode labels) = ''Boxes3D''"
| "logged_as (Capsules3D lengths radii colors) = ''Capsules3D''"
| "logged_as (LineStrips3D strips radii colors labels) = ''LineStrip3D''"
| "logged_as (Mesh3D vertex_positions triangle_indices vertex_colors) = ''Mesh3D''"
| "logged_as (Points3D positions radii colors labels) = ''Points3D''"
| "logged_as (MeshFromPath path) = ''Mesh from file''"

text \<open>
  \<open>_logArchetype\<close>. A missing entity, and a missing recording in the file-load branch,
  are attribute reads on \<open>None\<close>. The branch of a \<open>MeshFromPath\<close> payload returns before
  \<open>entity.addScene\<close>. The six other branches differ in their message only; the final
  \<open>else\<close> (\<open>return False\<close>) is for a payload of no class the module builds, and the type of
  payloads has none. \<open>self.sceneList[sceneIndex]\<close> with the index -1 of a missing scene
  is the last scene, or an \<open>IndexError\<close> on an empty list.
\<close>

definition logArchetype :: "Gui \<Rightarrow> string \<Rightarrow> string \<Rightarrow> (py_error + bool) \<times> Gui" where
  "logArchetype g entityName groupName =
     (let entity = getEntity g entityName;
          r = getRecording g groupName;
          sceneIndex = getSceneIndex g groupName
      in
        case entity of
          None \<Rightarrow> (Inl AttributeError, g)
        | Some e \<Rightarrow>
            (case archetype (entity_at g e) of
               MeshFromPath path \<Rightarrow>
                 (case r of
                    None \<Rightarrow> (Inl AttributeError, g)
                  | Some h \<Rightarrow>
                      (Inr True,
                       logger_info (rr_invoke g (LogFileFromPath path (to_native h)))
                         (LoggingNamed ''Mesh from file'' (name (entity_at g e)))))
             | a \<Rightarrow>
                 let g1 = logger_info g (LoggingNamed (logged_as a) (name (entity_at g e))) in
                 if sceneIndex = -1 \<and> sceneList g1 = [] then (Inl IndexError, g1)
                 else
                   let scene = (if sceneIndex = -1 then length (sceneList g1) - 1
                                else nat sceneIndex);
                       e1 = addScene (entity_at g1 e) scene;
                       g2 = entity_update g1 e e1
                   in (Inr True, rr_invoke g2 (Log (name e1) (archetype e1) r))))"

definition addToGroup :: "Gui \<Rightarrow> string \<Rightarrow> string \<Rightarrow> (py_error + bool) \<times> Gui" where
  "addToGroup g nodeName groupName =
     (if getSceneIndex g groupName = -1 then
        (Inr False, logger_error g (AddToGroupNoScene groupName))
      else if getEntity g nodeName = None then
        (Inr False, logger_error g (AddToGroupNoEntity nodeName))
      else logArchetype g nodeName groupName)"

subsection \<open>The calls of the interface\<close>

text \<open>
  The primitive-creation calls as data, so that a statement can range over all of them.
  The file has no public function for the kind \<open>MESH_FROM_PATH\<close>: that creation is the call
  \<open>_parseEntity(name, MeshFromPath(path), Archetype.MESH_FROM_PATH)\<close> itself.
\<close>

datatype creation =
    AddFloor string
  | AddBox string real real real "real list"
  | AddArrow string real real "real list"
  | AddCapsule string real real "real list"
  | AddLine string "real list" "real list" "real list"
  | AddSquareFace string "real list" "real list" "real list" "real list" "real list"
  | AddTriangleFace string "real list" "real list" "real list" "real list"
  | AddSphere string real "real list"
  | AddMeshFromPath string string

text \<open>The outcome of a call without the value it returns.\<close>

definition outcome :: "(py_error + 'a) \<times> Gui \<Rightarrow> (py_error + unit) \<times> Gui" where
  "outcome r = (case fst r of Inl e \<Rightarrow> (Inl e, snd r) | Inr v \<Rightarrow> (Inr (), snd r))"

fun create :: "Gui \<Rightarrow> creation \<Rightarrow> (py_error + unit) \<times> Gui" where
  "create g (AddFloor n) = outcome (addFloor g n)"
| "create g (AddBox n s1 s2 s3 col) = outcome (addBox g n s1 s2 s3 col)"
| "create g (AddArrow n radius len col) = outcome (addArrow g n radius len col)"
| "create g (AddCapsule n radius height col) = outcome (addCapsule g n radius height col)"
| "create g (AddLine n pos1 pos2 col) = outcome (addLine g n pos1 pos2 col)"
| "create g (AddSquareFace n pos1 pos2 pos3 pos4 col) =
     outcome (addSquareFace g n pos1 pos2 pos3 pos4 col)"
| "create g (AddTriangleFace n pos1 pos2 pos3 col) =
     outcome (addTriangleFace g n pos1 pos2 pos3 col)"
| "create g (AddSphere n radius col) = outcome (addSphere g n radius col)"
| "create g (AddMeshFromPath n path) = parseEntity g n (MeshFromPath path) MESH_FROM_PATH"

text \<open>The name argument of a creation call, the kind it registers under, its payload.\<close>

fun creation_name :: "creation \<Rightarrow> string" where
  "creation_name (AddFloor n) = n"
| "creation_name (AddBox n s1 s2 s3 col) = n"
| "creation_name (AddArrow n radius len col) = n"
| "creation_name (AddCapsule n radius height col) = n"
| "creation_name (AddLine n pos1 pos2 col) = n"
| "creation_name (AddSquareFace n pos1 pos2 pos3 pos4 col) = n"
| "creation_name (AddTriangleFace n pos1 pos2 pos3 col) = n"
| "creation_name (AddSphere n radius col) = n"
| "creation_name (AddMeshFromPath n path) = n"

fun creation_kind :: "creation \<Rightarrow> Archetype" where
  "creation_kind (AddFloor n) = BOXES3D"
| "creation_kind (AddBox n s1 s2 s3 col) = BOXES3D"
| "creation_kind (AddArrow n radius len col) = ARROWS3D"
| "creation_kind (AddCapsule n radius height col) = CAPSULES3D"
| "creation_kind (AddLine n pos1 pos2 col) = LINESTRIPS3D"
| "creation_kind (AddSquareFace n pos1 pos2 pos3 pos4 col) = MESH3D"
| "creation_kind (AddTriangleFace n pos1 pos2 pos3 col) = MESH3D"
| "creation_kind (AddSphere n radius col) = POINTS3D"
| "creation_kind (AddMeshFromPath n path) = MESH_FROM_PATH"

fun creation_payload :: "creation \<Rightarrow> archetype" where
  "creation_payload (AddFloor n) = Boxes3D [[200, 200, 0.5]] [[125, 125, 125]] ''Solid'' None"
| "creation_payload (AddBox n s1 s2 s3 col) = Boxes3D [[s1, s2, s3]] [col] ''Solid'' (Some [n])"
| "creation_payload (AddArrow n radius len col) =
     Arrows3D [[radius]] [[sin 0 * len, 0, cos 0 * len]] [col] [n]"
| "creation_payload (AddCapsule n radius height col) = Capsules3D [height] [radius] [col]"
| "creation_payload (AddLine n pos1 pos2 col) = LineStrips3D [[pos1, pos2]] [0.1] [col] [n]"
| "creation_payload (AddSquareFace n pos1 pos2 pos3 pos4 col) =
     Mesh3D [pos1, pos2, pos3, pos4] (Some [[0, 1, 2], [0, 1, 3], [0, 2, 3], [1, 2, 3]]) [col]"
| "creation_payload (AddTriangleFace n pos1 pos2 pos3 col) = Mesh3D [pos1, pos2, pos3] None [col]"
| "creation_payload (AddSphere n radius col) = Points3D [[0, 0, 0]] [[radius]] [col] [n]"
| "creation_payload (AddMeshFromPath n path) = MeshFromPath path"

text \<open>The arguments pass the assertions of the call.\<close>

fun creation_valid :: "creation \<Rightarrow> bool" where
  "creation_valid (AddTriangleFace n pos1 pos2 pos3 col) =
     (length pos1 = 3 \<and> length pos2 = 3 \<and> length pos3 = 3)"
| "creation_valid c = True"

text \<open>Every call of the interface, and the state it leaves.\<close>

datatype call =
    Create creation
  | CreateWindow string
  | CreateScene string
  | AddSceneToWindow string string
  | ResizeArrow string real real
  | AddToGroup string string

fun run :: "Gui \<Rightarrow> call \<Rightarrow> Gui" where
  "run g (Create c) = snd (create g c)"
| "run g (CreateWindow n) = snd (createWindow g n)"
| "run g (CreateScene n) = snd (createScene g n)"
| "run g (AddSceneToWindow sceneName wid) = snd (addSceneToWindow g sceneName wid)"
| "run g (ResizeArrow n radius len) = snd (resizeArrow g n radius len)"
| "run g (AddToGroup nodeName groupName) = snd (addToGroup g nodeName groupName)"

fun run_all :: "Gui \<Rightarrow> call list \<Rightarrow> Gui" where
  "run_all g [] = g"
| "run_all g (c # cs) = run_all (run g c) cs"

subsection \<open>Registered names\<close>

text \<open>
  A scene is registered under a name when a scene of \<open>sceneList\<close> has that name; the
  scene a name stands for is the first one of that name. An entity is registered under a
  name when an entity of one of the buckets has it.
\<close>

definition scene_names :: "Gui \<Rightarrow> string set" where
  "scene_names g = scene_name ` set (sceneList g)"

definition first_scene_named :: "Gui \<Rightarrow> string \<Rightarrow> nat \<Rightarrow> bool" where
  "first_scene_named g s i \<longleftrightarrow>
     i < length (sceneList g) \<and> scene_name (sceneList g ! i) = s \<and>
     (\<forall>j < i. scene_name (sceneList g ! j) \<noteq> s)"

definition entity_names :: "Gui \<Rightarrow> string set" where
  "entity_names g = (\<Union>k. name ` set (entityList g k))"

text \<open>
  The scenes of every entity are references into \<open>sceneList\<close>, each at most once: this
  holds in every registry the interface can build (\<open>registry_ok_reachable\<close> below).
\<close>

definition registry_ok :: "Gui \<Rightarrow> bool" where
  "registry_ok g \<longleftrightarrow>
     (\<forall>k. \<forall>e \<in> set (entityList g k).
        distinct (scenes e) \<and> (\<forall>sc \<in> set (scenes e). sc < length (sceneList g)))"

section \<open>Lookup lemmas\<close>

text \<open>What the three linear scans of the module return, in terms of the registered names.\<close>

lemma scene_index_none: "scene_index ss n k = -1 \<longleftrightarrow> n \<notin> scene_name ` set ss"
  by (induction ss arbitrary: k) auto

lemma scene_index_ge: "scene_index ss n k = -1 \<or> int k \<le> scene_index ss n k"
proof (induction ss arbitrary: k)
  case Nil
  then show ?case by simp
next
  case (Cons s ss)
  from Cons[of "Suc k"] show ?case by auto
qed

lemma scene_index_first:
  "scene_index ss n k = int (k + i) \<longleftrightarrow>
     i < length ss \<and> scene_name (ss ! i) = n \<and> (\<forall>j < i. scene_name (ss ! j) \<noteq> n)"
proof (induction ss arbitrary: k i)
  case Nil
  then show ?case by simp
next
  case (Cons s ss)
  show ?case
  proof (cases "scene_name s = n")
    case True
    then show ?thesis by (cases i) auto
  next
    case False
    show ?thesis
    proof (cases i)
      case 0
      have "scene_index ss n (Suc k) \<noteq> int k"
        using scene_index_ge[of ss n "Suc k"] by auto
      with False 0 show ?thesis by simp
    next
      case (Suc i')
      with False Cons.IH[of "Suc k" i'] show ?thesis
        by (auto simp: less_Suc_eq_0_disj)
    qed
  qed
qed

lemma getSceneIndex_none: "getSceneIndex g s = -1 \<longleftrightarrow> s \<notin> scene_names g"
  by (simp add: getSceneIndex_def scene_names_def scene_index_none)

lemma getSceneIndex_first: "getSceneIndex g s = int i \<longleftrightarrow> first_scene_named g s i"
  using scene_index_first[of "sceneList g" s 0 i]
  by (simp add: getSceneIndex_def first_scene_named_def)

lemma first_scene_named_registered: "first_scene_named g s i \<Longrightarrow> s \<in> scene_names g"
  by (auto simp: first_scene_named_def scene_names_def)

lemma registered_first_scene: "s \<in> scene_names g \<Longrightarrow> \<exists>i. first_scene_named g s i"
proof -
  assume "s \<in> scene_names g"
  then have "getSceneIndex g s \<noteq> -1" by (simp add: getSceneIndex_none)
  moreover have "getSceneIndex g s = -1 \<or> 0 \<le> getSceneIndex g s"
    using scene_index_ge[of "sceneList g" s 0] by (simp add: getSceneIndex_def)
  ultimately have "getSceneIndex g s = int (nat (getSceneIndex g s))" by simp
  then show ?thesis using getSceneIndex_first by blast
qed

lemma scene_rec_first:
  "i < length ss \<Longrightarrow> scene_name (ss ! i) = n \<Longrightarrow> (\<forall>j < i. scene_name (ss ! j) \<noteq> n)
     \<Longrightarrow> scene_rec ss n = rec (ss ! i)"
proof (induction ss arbitrary: i)
  case Nil
  then show ?case by simp
next
  case (Cons s ss)
  show ?case
  proof (cases i)
    case 0
    with Cons.prems show ?thesis by simp
  next
    case (Suc i')
    with Cons.prems have "scene_name s \<noteq> n" by auto
    moreover have "scene_rec ss n = rec (ss ! i')"
      using Cons.prems Suc by (intro Cons.IH) auto
    ultimately show ?thesis using Suc by simp
  qed
qed

lemma getRecording_first: "first_scene_named g s i \<Longrightarrow> getRecording g s = rec (sceneList g ! i)"
  by (simp add: getRecording_def first_scene_named_def scene_rec_first)

lemma takeWhile_upto: "c \<notin> set s \<Longrightarrow> takeWhile (\<lambda>x. x \<noteq> c) (s @ c # r) = s"
  by (induction s) auto

lemma find_slash_split:
  "CHR ''/'' \<notin> set s \<Longrightarrow> find_slash (s @ CHR ''/'' # r) = int (length s)"
  by (simp add: find_slash_def takeWhile_upto)

lemma takeWhile_shorter: "c \<in> set s \<Longrightarrow> length (takeWhile (\<lambda>x. x \<noteq> c) s) < length s"
  by (induction s) auto

lemma find_slash_none: "find_slash s = -1 \<longleftrightarrow> CHR ''/'' \<notin> set s"
  by (simp add: find_slash_def)

lemma find_slash_range: "CHR ''/'' \<in> set s \<Longrightarrow> 0 \<le> find_slash s \<and> find_slash s < int (length s)"
  by (simp add: find_slash_def takeWhile_shorter)

lemma bucket_find_none: "bucket_find es n = None \<longleftrightarrow> n \<notin> name ` set es"
  by (induction es) auto

lemma bucket_find_some:
  "bucket_find es n = Some i \<Longrightarrow> i < length es \<and> name (es ! i) = n \<and> (\<forall>j < i. name (es ! j) \<noteq> n)"
proof (induction es arbitrary: i)
  case Nil
  then show ?case by simp
next
  case (Cons e es)
  show ?case
  proof (cases "name e = n")
    case True
    with Cons.prems show ?thesis by simp
  next
    case False
    with Cons.prems obtain i' where i': "bucket_find es n = Some i'" "i = Suc i'" by auto
    from Cons.IH[OF i'(1)] False i'(2) show ?thesis
      by (auto simp: less_Suc_eq_0_disj)
  qed
qed

lemma bucket_find_in: "bucket_find es n = Some i \<Longrightarrow> n \<in> name ` set es"
  using bucket_find_none[of es n] by auto

lemma buckets_find_none: "buckets_find el ks n = None \<longleftrightarrow> (\<forall>k \<in> set ks. n \<notin> name ` set (el k))"
  by (induction ks) (auto simp: bucket_find_none split: option.splits dest: bucket_find_in)

lemma buckets_find_some:
  "buckets_find el ks n = Some r \<Longrightarrow>
     fst r \<in> set ks \<and> snd r < length (el (fst r)) \<and> name (el (fst r) ! snd r) = n"
  by (induction ks) (auto split: option.splits dest: bucket_find_some)

lemma archetypes_all: "k \<in> set archetypes"
  by (cases k) (simp_all add: archetypes_def)

lemma getEntity_none: "getEntity g n = None \<longleftrightarrow> n \<notin> entity_names g"
  by (auto simp: getEntity_def entity_names_def buckets_find_none archetypes_all)

lemma getEntity_some:
  "getEntity g n = Some r \<Longrightarrow>
     snd r < length (entityList g (fst r)) \<and> name (entity_at g r) = n"
  by (auto simp: getEntity_def entity_at_def dest: buckets_find_some)

lemma scene_in_set: "scene_in s ss \<longleftrightarrow> s \<in> set ss"
  by (induction ss) auto

lemma isEntityInScene_set: "isEntityInScene e s \<longleftrightarrow> s \<in> set (scenes e)"
  by (cases "scenes e") (auto simp: isEntityInScene_def scene_in_set)

section \<open>Creation calls\<close>

text \<open>Every creation call with valid arguments is \<open>_parseEntity\<close> on its name, payload and kind.\<close>

lemma outcome_return_True: "outcome (return_True r) = r"
  by (cases r) (auto simp: outcome_def return_True_def split: sum.splits)

lemma create_parseEntity:
  "creation_valid c \<Longrightarrow>
     create g c = parseEntity g (creation_name c) (creation_payload c) (creation_kind c)"
  by (cases c)
    (simp_all add: addFloor_def addBox_def addArrow_def addCapsule_def addLine_def
      addSquareFace_def addTriangleFace_def addSphere_def outcome_return_True)

lemma parseEntity_no_slash:
  "CHR ''/'' \<notin> set n \<Longrightarrow> parseEntity g n a k = parseEntity_wait g n a k"
  by (simp add: parseEntity_def find_slash_def)

lemma parseEntity_split:
  assumes "CHR ''/'' \<notin> set p"
  shows "parseEntity g (p @ CHR ''/'' # r) a k =
     (if r \<noteq> [] \<and> p \<in> scene_names g
      then parseEntity_scene g (p @ CHR ''/'' # r) a k (length p) (nat (getSceneIndex g p))
      else parseEntity_wait g (p @ CHR ''/'' # r) a k)"
  using assms by (auto simp: parseEntity_def find_slash_split getSceneIndex_none Let_def)


section \<open>Logging an entity of the registry\<close>

text \<open>\<open>addToGroup\<close> on a registered scene and a registered entity, case by case.\<close>

lemma addScene_fields [simp]:
  "name (addScene x i) = name x" "archetype (addScene x i) = archetype x"
  by (simp_all add: addScene_def)

lemma logger_info_fields [simp]:
  "sceneList (logger_info g m) = sceneList g"
  "windowList (logger_info g m) = windowList g"
  "entityList (logger_info g m) = entityList g"
  "backend (logger_info g m) = backend g"
  "logger (logger_info g m) = logger g @ [(INFO, m)]"
  by (simp_all add: logger_info_def)

lemma entity_at_other_fields [simp]:
  "entity_at (g\<lparr>logger := l\<rparr>) r = entity_at g r"
  "entity_at (g\<lparr>backend := b\<rparr>) r = entity_at g r"
  "entity_at (g\<lparr>sceneList := ss\<rparr>) r = entity_at g r"
  "entity_at (g\<lparr>windowList := ws\<rparr>) r = entity_at g r"
  by (simp_all add: entity_at_def)

lemma addToGroup_found:
  assumes "first_scene_named g s i" and "getEntity g e = Some r"
  shows "addToGroup g e s = logArchetype g e s"
proof -
  have "getSceneIndex g s = int i"
    using assms(1) by (simp add: getSceneIndex_first)
  then show ?thesis
    using assms(2) by (simp add: addToGroup_def)
qed

lemma logArchetype_found:
  assumes "first_scene_named g s i" and "getEntity g e = Some r"
  shows "logArchetype g e s =
     (case archetype (entity_at g r) of
        MeshFromPath path \<Rightarrow>
          (case rec (sceneList g ! i) of
             None \<Rightarrow> (Inl AttributeError, g)
           | Some h \<Rightarrow>
               (Inr True,
                g\<lparr>backend := backend g @ [LogFileFromPath path (to_native h)],
                  logger := logger g @ [(INFO, LoggingNamed ''Mesh from file'' e)]\<rparr>))
      | a \<Rightarrow>
          (Inr True,
           g\<lparr>entityList := (entityList g)
                (fst r := (entityList g (fst r))[snd r := addScene (entity_at g r) i]),
             backend := backend g @ [Log e a (rec (sceneList g ! i))],
             logger := logger g @ [(INFO, LoggingNamed (logged_as a) e)]\<rparr>))"
proof -
  have idx: "getSceneIndex g s = int i"
    using assms(1) by (simp add: getSceneIndex_first)
  have r: "getRecording g s = rec (sceneList g ! i)"
    using assms(1) by (rule getRecording_first)
  have n: "name (entity_at g r) = e"
    using getEntity_some[OF assms(2)] by simp
  show ?thesis
    by (cases "archetype (entity_at g r)")
      (simp_all add: logArchetype_def assms(2) idx r n Let_def entity_update_def rr_invoke_def
        logger_info_def split: option.splits)
qed

section \<open>Resizing an arrow\<close>

text \<open>Which branch \<open>resizeArrow\<close> takes for a name, and what its loop over the scenes leaves.\<close>

lemma resizeArrow_scene_prefix:
  assumes "CHR ''/'' \<notin> set s" and "e \<noteq> []" and "first_scene_named g s i"
  shows "resizeArrow g (s @ CHR ''/'' # e) radius len =
     resizeArrow_scene g (s @ CHR ''/'' # e) radius len (length s) i"
proof -
  have "getSceneIndex g s = int i"
    using assms(3) by (simp add: getSceneIndex_first)
  then show ?thesis
    using assms(1,2) by (simp add: resizeArrow_def find_slash_split)
qed

lemma resizeArrow_whole_name:
  assumes "CHR ''/'' \<notin> set n \<or> (\<exists>p. n = p @ ''/'' \<and> CHR ''/'' \<notin> set p) \<or>
     (\<exists>p r. n = p @ CHR ''/'' # r \<and> CHR ''/'' \<notin> set p \<and> p \<notin> scene_names g)"
  shows "resizeArrow g n radius len = resizeArrow_bare g n radius len"
  using assms
  by (auto simp: resizeArrow_def find_slash_split find_slash_none getSceneIndex_none Let_def)

lemma relog_trace:
  "relog g e ss =
     g\<lparr>backend := backend g @ map (\<lambda>sc. Log (name e) (archetype e) (rec (sceneList g ! sc))) ss,
       logger := logger g @
         map (\<lambda>sc. (INFO, ResizeArrowRelogged (name e) (scene_name (sceneList g ! sc)))) ss\<rparr>"
  by (induction ss arbitrary: g) (simp_all add: rr_invoke_def logger_info_def Let_def)

section \<open>The scenes under every call\<close>

text \<open>
  Only \<open>createScene\<close> and \<open>addSceneToWindow\<close> touch \<open>sceneList\<close>: the first appends a scene,
  the second sets the recording of one.
\<close>

lemma snd_outcome [simp]: "snd (outcome r) = snd r"
  by (simp add: outcome_def split: sum.splits)

lemma snd_return_True [simp]: "snd (return_True r) = snd r"
  by (simp add: return_True_def split: sum.splits)

lemma parseEntity_sceneList: "sceneList (snd (parseEntity g n a k)) = sceneList g"
  by (simp add: parseEntity_def parseEntity_scene_def parseEntity_wait_def append_entity_def
      rr_invoke_def Let_def split: option.splits)

lemma create_sceneList: "sceneList (snd (create g c)) = sceneList g"
  by (cases c)
    (simp_all add: addFloor_def addBox_def addArrow_def addCapsule_def addLine_def
      addSquareFace_def addTriangleFace_def addSphere_def parseEntity_sceneList)

lemma resizeArrow_sceneList: "sceneList (snd (resizeArrow g n radius len)) = sceneList g"
  by (simp add: resizeArrow_def resizeArrow_scene_def resizeArrow_bare_def relog_trace
      entity_update_def rr_invoke_def logger_error_def Let_def split: option.splits)

lemma addToGroup_sceneList: "sceneList (snd (addToGroup g e s)) = sceneList g"
  by (simp add: addToGroup_def logArchetype_def entity_update_def rr_invoke_def logger_error_def
      Let_def split: option.splits archetype.splits)

lemma addSceneToWindow_rec:
  assumes "i < length (sceneList g)"
  shows "rec (sceneList (snd (addSceneToWindow g s w)) ! i) =
     (if first_scene_named g s i \<and> w \<in> set (windowList g)
      then Some (Recording w s (length (backend g))) else rec (sceneList g ! i))"
proof (cases "s \<in> scene_names g \<and> w \<in> set (windowList g)")
  case False
  then have "sceneList (snd (addSceneToWindow g s w)) = sceneList g"
    by (auto simp: addSceneToWindow_def getSceneIndex_none logger_error_def Let_def)
  moreover have "\<not> (first_scene_named g s i \<and> w \<in> set (windowList g))"
    using False first_scene_named_registered by blast
  ultimately show ?thesis by auto
next
  case True
  then obtain j where j: "first_scene_named g s j"
    using registered_first_scene by blast
  then have idx: "getSceneIndex g s = int j"
    by (simp add: getSceneIndex_first)
  have jl: "j < length (sceneList g)"
    using j by (simp add: first_scene_named_def)
  have ij: "first_scene_named g s i \<longleftrightarrow> i = j"
    using j idx getSceneIndex_first[of g s i] by auto
  have "sceneList (snd (addSceneToWindow g s w)) =
      (sceneList g)[j := (sceneList g ! j)\<lparr>rec := Some (Recording w s (length (backend g)))\<rparr>]"
    using True idx by (simp add: addSceneToWindow_def rr_invoke_def setRec_def)
  then show ?thesis
    using True assms jl ij by (auto simp: nth_list_update)
qed

section \<open>Membership after addToGroup\<close>

text \<open>
  For a payload other than \<open>MeshFromPath\<close>, \<open>addToGroup\<close> on a registered entity and a
  registered scene returns \<open>True\<close> and leaves the scene among the scenes of the entity; a
  second call returns \<open>True\<close> again and leaves the entity as the first call left it.
\<close>

lemma bucket_find_update:
  "j < length es \<Longrightarrow> name x = name (es ! j) \<Longrightarrow> bucket_find (es[j := x]) n = bucket_find es n"
proof (induction es arbitrary: j)
  case Nil
  then show ?case by simp
next
  case (Cons e es)
  then show ?case by (cases j) simp_all
qed

lemma buckets_find_update:
  "j < length (el k) \<Longrightarrow> name x = name (el k ! j) \<Longrightarrow>
     buckets_find (el(k := (el k)[j := x])) ks n = buckets_find el ks n"
  by (induction ks) (auto simp: bucket_find_update split: option.splits)

lemma getEntity_entity_update:
  assumes "snd r < length (entityList g (fst r))" and "name x = name (entity_at g r)"
  shows "getEntity (entity_update g r x) n = getEntity g n"
  using assms by (simp add: getEntity_def entity_update_def entity_at_def buckets_find_update)

lemma entity_at_entity_update:
  "snd r < length (entityList g (fst r)) \<Longrightarrow> entity_at (entity_update g r x) r = x"
  by (simp add: entity_at_def entity_update_def)

lemma addToGroup_member:
  assumes "first_scene_named g s i" and "getEntity g e = Some r"
    and "archetype_path (archetype (entity_at g r)) = None"
  shows "fst (addToGroup g e s) = Inr True"
    and "getEntity (snd (addToGroup g e s)) e = Some r"
    and "entity_at (snd (addToGroup g e s)) r = addScene (entity_at g r) i"
    and "isEntityInScene (entity_at (snd (addToGroup g e s)) r) i"
proof -
  have len: "snd r < length (entityList g (fst r))"
    using getEntity_some[OF assms(2)] by simp
  have eq: "addToGroup g e s =
      (Inr True,
       (entity_update g r (addScene (entity_at g r) i))
         \<lparr>backend := backend g @ [Log e (archetype (entity_at g r)) (rec (sceneList g ! i))],
          logger := logger g @ [(INFO, LoggingNamed (logged_as (archetype (entity_at g r))) e)]\<rparr>)"
    using assms(3)
    by (cases "archetype (entity_at g r)")
      (simp_all add: addToGroup_found[OF assms(1,2)] logArchetype_found[OF assms(1,2)]
        entity_update_def)
  show "fst (addToGroup g e s) = Inr True"
    by (simp add: eq)
  have ge: "getEntity (entity_update g r (addScene (entity_at g r) i)) e = Some r"
    using assms(2) len by (simp add: getEntity_entity_update)
  then show "getEntity (snd (addToGroup g e s)) e = Some r"
    by (simp add: eq getEntity_def)
  show at: "entity_at (snd (addToGroup g e s)) r = addScene (entity_at g r) i"
    using len by (simp add: eq entity_at_entity_update)
  show "isEntityInScene (entity_at (snd (addToGroup g e s)) r) i"
    by (simp add: at isEntityInScene_set addScene_def)
qed

lemma addScene_idem: "addScene (addScene x i) i = addScene x i"
  by (simp add: addScene_def)

lemma addToGroup_twice:
  assumes "first_scene_named g s i" and "getEntity g e = Some r"
    and "archetype_path (archetype (entity_at g r)) = None"
  shows "fst (addToGroup (snd (addToGroup g e s)) e s) = Inr True"
    and "entity_at (snd (addToGroup (snd (addToGroup g e s)) e s)) r =
         entity_at (snd (addToGroup g e s)) r"
proof -
  let ?g1 = "snd (addToGroup g e s)"
  have f: "first_scene_named ?g1 s i"
    using assms(1) by (simp add: first_scene_named_def addToGroup_sceneList)
  have ge: "getEntity ?g1 e = Some r"
    using assms by (rule addToGroup_member(2))
  have at: "entity_at ?g1 r = addScene (entity_at g r) i"
    using assms by (rule addToGroup_member(3))
  have p: "archetype_path (archetype (entity_at ?g1 r)) = None"
    using assms(3) by (simp add: at)
  show "fst (addToGroup ?g1 e s) = Inr True"
    using f ge p by (rule addToGroup_member(1))
  show "entity_at (snd (addToGroup ?g1 e s)) r = entity_at ?g1 r"
    using addToGroup_member(3)[OF f ge p] by (simp add: at addScene_idem)
qed

section \<open>The references of a registry\<close>

text \<open>Every call of the interface keeps the scene references of the entities in range and distinct.\<close>

lemma registry_ok_init: "registry_ok Gui_init"
  by (simp add: registry_ok_def Gui_init_def)

lemma registry_ok_same:
  assumes "registry_ok g" and "entityList g' = entityList g"
    and "length (sceneList g) \<le> length (sceneList g')"
  shows "registry_ok g'"
  using assms unfolding registry_ok_def by (metis less_le_trans)

lemma registry_ok_append:
  assumes "registry_ok g" and "distinct (scenes e)"
    and "\<forall>sc \<in> set (scenes e). sc < length (sceneList g)"
  shows "registry_ok (append_entity g k e)"
  using assms by (auto simp: registry_ok_def append_entity_def)

lemma registry_ok_update:
  assumes "registry_ok g" and "distinct (scenes x)"
    and "\<forall>sc \<in> set (scenes x). sc < length (sceneList g)"
  shows "registry_ok (entity_update g r x)"
  using assms
  by (auto simp: registry_ok_def entity_update_def dest!: set_update_subset_insert[THEN subsetD])

lemma registry_ok_entity_at:
  assumes "registry_ok g" and "getEntity g n = Some r"
  shows "distinct (scenes (entity_at g r))"
    and "\<forall>sc \<in> set (scenes (entity_at g r)). sc < length (sceneList g)"
proof -
  have "entity_at g r \<in> set (entityList g (fst r))"
    using getEntity_some[OF assms(2)] by (simp add: entity_at_def)
  with assms(1) show "distinct (scenes (entity_at g r))"
    and "\<forall>sc \<in> set (scenes (entity_at g r)). sc < length (sceneList g)"
    by (auto simp: registry_ok_def)
qed

lemma getSceneIndex_bound:
  "getSceneIndex g s \<noteq> -1 \<Longrightarrow> nat (getSceneIndex g s) < length (sceneList g)"
proof -
  assume "getSceneIndex g s \<noteq> -1"
  then have "s \<in> scene_names g" by (simp add: getSceneIndex_none)
  then obtain i where i: "first_scene_named g s i"
    using registered_first_scene by blast
  then have "getSceneIndex g s = int i" by (simp add: getSceneIndex_first)
  with i show ?thesis by (simp add: first_scene_named_def)
qed

lemma registry_ok_logger [simp]:
  "registry_ok (logger_info g m) = registry_ok g"
  "registry_ok (logger_error g m) = registry_ok g"
  "registry_ok (rr_invoke g c) = registry_ok g"
  by (simp_all add: registry_ok_def logger_info_def logger_error_def rr_invoke_def)

lemma registry_ok_parseEntity:
  assumes "registry_ok g"
  shows "registry_ok (snd (parseEntity g n a k))"
proof -
  have w: "registry_ok (snd (parseEntity_wait g n a k))"
    using assms by (simp add: parseEntity_wait_def Entity_init_def registry_ok_append Let_def)
  have s: "registry_ok (snd (parseEntity_scene g n a k c i))" if "i < length (sceneList g)" for c i
    using assms that
    by (simp add: parseEntity_scene_def Entity_init_def registry_ok_append Let_def
        split: option.splits)
  show ?thesis
    using w s getSceneIndex_bound by (simp add: parseEntity_def Let_def)
qed

lemma registry_ok_create: "registry_ok g \<Longrightarrow> registry_ok (snd (create g c))"
  by (cases c)
    (simp_all add: addFloor_def addBox_def addArrow_def addCapsule_def addLine_def
      addSquareFace_def addTriangleFace_def addSphere_def registry_ok_parseEntity)

lemma registry_ok_relog [simp]: "registry_ok (relog g e ss) = registry_ok g"
  by (simp add: relog_trace registry_ok_def)

lemma registry_ok_resizeArrow:
  assumes "registry_ok g"
  shows "registry_ok (snd (resizeArrow g n radius len))"
proof -
  have u: "registry_ok (entity_update g r ((entity_at g r)\<lparr>archetype := x\<rparr>))"
    if "getEntity g m = Some r" for m r x
    using registry_ok_entity_at[OF assms that] assms by (simp add: registry_ok_update)
  have b: "registry_ok (snd (resizeArrow_bare g n radius len))"
    using assms u
    by (auto simp: resizeArrow_bare_def Let_def split: option.splits)
  have s: "registry_ok (snd (resizeArrow_scene g n radius len c i))" for c i
    using assms u
    by (auto simp: resizeArrow_scene_def Let_def split: option.splits)
  show ?thesis
    using b s by (simp add: resizeArrow_def Let_def)
qed

lemma entity_at_logger_info [simp]: "entity_at (logger_info g m) r = entity_at g r"
  by (simp add: logger_info_def)

lemma registry_ok_addToGroup:
  assumes "registry_ok g"
  shows "registry_ok (snd (addToGroup g e s))"
proof (cases "getSceneIndex g s = -1 \<or> getEntity g e = None")
  case True
  then show ?thesis
    using assms by (auto simp: addToGroup_def)
next
  case False
  then obtain r where r: "getEntity g e = Some r" by auto
  from False have i: "nat (getSceneIndex g s) < length (sceneList g)"
    using getSceneIndex_bound by blast
  have "registry_ok (entity_update (logger_info g m) r
            (addScene (entity_at g r) (nat (getSceneIndex g s))))" for m
    using registry_ok_entity_at[OF assms r] i assms
    by (intro registry_ok_update) (auto simp: addScene_def)
  then show ?thesis
    using False r assms
    by (auto simp: addToGroup_def logArchetype_def Let_def split: option.splits archetype.splits)
qed

lemma registry_ok_run: "registry_ok g \<Longrightarrow> registry_ok (run g c)"
proof (cases c)
  case (AddSceneToWindow s w)
  assume g: "registry_ok g"
  have "entityList (snd (addSceneToWindow g s w)) = entityList g"
    and "length (sceneList g) \<le> length (sceneList (snd (addSceneToWindow g s w)))"
    by (simp_all add: addSceneToWindow_def logger_error_def rr_invoke_def Let_def)
  with g AddSceneToWindow show ?thesis
    by (simp add: registry_ok_same)
next
  case (CreateScene n)
  assume g: "registry_ok g"
  have "entityList (snd (createScene g n)) = entityList g"
    and "length (sceneList g) \<le> length (sceneList (snd (createScene g n)))"
    by (simp_all add: createScene_def)
  with g CreateScene show ?thesis
    by (simp add: registry_ok_same)
next
  case (CreateWindow n)
  assume g: "registry_ok g"
  have "entityList (snd (createWindow g n)) = entityList g"
    and "length (sceneList g) \<le> length (sceneList (snd (createWindow g n)))"
    by (simp_all add: createWindow_def)
  with g CreateWindow show ?thesis
    by (simp add: registry_ok_same)
qed (simp_all add: registry_ok_create registry_ok_resizeArrow registry_ok_addToGroup)

lemma registry_ok_run_all: "registry_ok g \<Longrightarrow> registry_ok (run_all g cs)"
  by (induction cs arbitrary: g) (simp_all add: registry_ok_run)

lemma registry_ok_reachable: "registry_ok (run_all Gui_init cs)"
  by (simp add: registry_ok_init registry_ok_run_all)

text \<open>The definitions a run of calls from the empty registry unfolds to.\<close>

lemmas run_defs = createScene_def createWindow_def logger_info_def logger_error_def
  rr_invoke_def Scene_init_def Gui_init_def

lemmas create_defs = addFloor_def addBox_def addArrow_def addCapsule_def addLine_def
  addSquareFace_def addTriangleFace_def addSphere_def outcome_def return_True_def
  parseEntity_def parseEntity_wait_def parseEntity_scene_def find_slash_def getSceneIndex_def
  Entity_init_def append_entity_def addSceneToWindow_def setRec_def

lemmas registry_defs = addToGroup_def logArchetype_def getEntity_def archetypes_def entity_at_def
  entity_update_def addScene_def getRecording_def isEntityInScene_def first_scene_named_def
  scene_names_def Let_def

section \<open>Claims\<close>




text \<open>
  C2. A creation call whose name has no \<open>/\<close>, or whose first \<open>/\<close> is its last character, or
  whose prefix before the first \<open>/\<close> is not the name of a registered scene, registers an
  entity under the whole name (an interior \<open>/\<close> kept), with no scene, and makes no backend
  call: the state changes in the bucket of the kind and in the logger only.
\<close>

theorem creation_waits:
  assumes "creation_valid c"
    and "CHR ''/'' \<notin> set (creation_name c) \<or>
         (\<exists>p. creation_name c = p @ ''/'' \<and> CHR ''/'' \<notin> set p) \<or>
         (\<exists>p r. creation_name c = p @ CHR ''/'' # r \<and> CHR ''/'' \<notin> set p \<and> p \<notin> scene_names g)"
  shows "create g c =
     (Inr (),
      g\<lparr>entityList := (entityList g)
           (creation_kind c := entityList g (creation_kind c) @
              [\<lparr>name = creation_name c, archetype = creation_payload c, scenes = []\<rparr>]),
        logger := logger g @
           [(INFO, ParseEntityDeferred (Archetype_name (creation_kind c)) (creation_name c))]\<rparr>)"
proof -
  have "parseEntity g (creation_name c) (creation_payload c) (creation_kind c) =
        parseEntity_wait g (creation_name c) (creation_payload c) (creation_kind c)"
    using assms(2) by (auto simp: parseEntity_no_slash parseEntity_split)
  then show ?thesis
    using assms(1)
    by (simp add: create_parseEntity parseEntity_wait_def Entity_init_def append_entity_def
        logger_info_def)
qed

theorem creation_waits_witness:
  "create Gui_init (AddSphere ''s1'' 2 [0, 255, 0, 255]) =
     (Inr (),
      Gui_init\<lparr>entityList := (\<lambda>_. [])
           (POINTS3D := [\<lparr>name = ''s1'',
              archetype = Points3D [[0, 0, 0]] [[2]] [[0, 255, 0, 255]] [''s1''], scenes = []\<rparr>]),
        logger := [(INFO, ParseEntityDeferred ''POINTS3D'' ''s1'')]\<rparr>) \<and>
   ''ghost'' \<notin> scene_names (snd (createScene Gui_init ''world'')) \<and>
   entityList (snd (create (snd (createScene Gui_init ''world'')) (AddFloor ''ghost/floor''))) BOXES3D =
     [\<lparr>name = ''ghost/floor'',
       archetype = Boxes3D [[200, 200, 0.5]] [[125, 125, 125]] ''Solid'' None, scenes = []\<rparr>] \<and>
   backend (snd (create (snd (createScene Gui_init ''world'')) (AddFloor ''ghost/floor''))) = []"
proof -
  let ?g = "snd (createScene Gui_init ''world'')"
  have names: "scene_names ?g = {''world''}"
    by (simp add: Gui_init_def scene_names_def createScene_def logger_info_def Scene_init_def)
  have "\<exists>p r. creation_name (AddFloor ''ghost/floor'') = p @ CHR ''/'' # r \<and>
          CHR ''/'' \<notin> set p \<and> p \<notin> scene_names ?g"
    unfolding names
    by (rule exI[of _ "''ghost''"], rule exI[of _ "''floor''"]) simp
  then have h: "CHR ''/'' \<notin> set (creation_name (AddFloor ''ghost/floor'')) \<or>
      (\<exists>p. creation_name (AddFloor ''ghost/floor'') = p @ ''/'' \<and> CHR ''/'' \<notin> set p) \<or>
      (\<exists>p r. creation_name (AddFloor ''ghost/floor'') = p @ CHR ''/'' # r \<and>
          CHR ''/'' \<notin> set p \<and> p \<notin> scene_names ?g)"
    by blast
  have v: "creation_valid (AddFloor ''ghost/floor'')" by simp
  show ?thesis
    using creation_waits[of "AddSphere ''s1'' 2 [0, 255, 0, 255]" Gui_init]
      creation_waits[OF v h] names
    by (simp add: Gui_init_def createScene_def logger_info_def Scene_init_def)
qed

text \<open>
  C3. \<open>addToGroup(e, s)\<close> returns \<open>False\<close> when no scene is registered under \<open>s\<close>, whether
  or not an entity is registered under \<open>e\<close>, and when no entity is registered under \<open>e\<close>,
  whether or not a scene is registered under \<open>s\<close>. In both cases the state is the one before
  but for the error message: no registry changes and the backend is not called.
\<close>

theorem addToGroup_not_found:
  assumes "s \<notin> scene_names g \<or> e \<notin> entity_names g"
  shows "addToGroup g e s =
     (Inr False,
      g\<lparr>logger := logger g @
         [(ERROR, if s \<notin> scene_names g then AddToGroupNoScene s else AddToGroupNoEntity e)]\<rparr>)"
  using assms
  by (auto simp: addToGroup_def getSceneIndex_none getEntity_none logger_error_def)

theorem addToGroup_not_found_witness:
  "''world'' \<notin> scene_names Gui_init \<and>
   addToGroup Gui_init ''b1'' ''world'' =
     (Inr False, Gui_init\<lparr>logger := [(ERROR, AddToGroupNoScene ''world'')]\<rparr>) \<and>
   ''b1'' \<notin> entity_names (snd (createScene Gui_init ''world'')) \<and>
   addToGroup (snd (createScene Gui_init ''world'')) ''b1'' ''world'' =
     (Inr False, (snd (createScene Gui_init ''world''))
        \<lparr>logger := [(INFO, CreateSceneNote), (ERROR, AddToGroupNoEntity ''b1'')]\<rparr>)"
  using addToGroup_not_found[of "''world''" Gui_init "''b1''"]
    addToGroup_not_found[of "''world''" "snd (createScene Gui_init ''world'')" "''b1''"]
  by (simp add: scene_names_def entity_names_def Gui_init_def createScene_def logger_info_def
      Scene_init_def)

text \<open>
  C4. After a successful \<open>addToGroup(e, s)\<close> the entity is in the scene. The lemmas
  \<open>addToGroup_member\<close> and \<open>addToGroup_twice\<close> above show it for the six rerun payloads. The
  branch of \<open>_logArchetype\<close> for a \<open>MeshFromPath\<close> payload returns \<open>True\<close> before
  \<open>entity.addScene\<close> is reached: with the scene \<open>world\<close> bound to the window \<open>win\<close> and a
  mesh \<open>m\<close> waiting in the registry, \<open>addToGroup("m", "world")\<close> loads the file into the
  recording and returns \<open>True\<close>, and \<open>_isEntityInScene\<close> is still false.
\<close>

theorem addToGroup_mesh_not_member:
  "fst (addToGroup (run_all Gui_init [CreateScene ''world'', CreateWindow ''win'',
          AddSceneToWindow ''world'' ''win'', Create (AddMeshFromPath ''m'' ''m.obj'')])
        ''m'' ''world'') = Inr True \<and>
   getEntity (snd (addToGroup (run_all Gui_init [CreateScene ''world'', CreateWindow ''win'',
          AddSceneToWindow ''world'' ''win'', Create (AddMeshFromPath ''m'' ''m.obj'')])
        ''m'' ''world'')) ''m'' = Some (MESH_FROM_PATH, 0) \<and>
   isEntityInScene (entity_at (snd (addToGroup (run_all Gui_init [CreateScene ''world'',
          CreateWindow ''win'', AddSceneToWindow ''world'' ''win'',
          Create (AddMeshFromPath ''m'' ''m.obj'')])
        ''m'' ''world'')) (MESH_FROM_PATH, 0)) 0 = False \<and>
   backend (snd (addToGroup (run_all Gui_init [CreateScene ''world'', CreateWindow ''win'',
          AddSceneToWindow ''world'' ''win'', Create (AddMeshFromPath ''m'' ''m.obj'')])
        ''m'' ''world'')) =
     [NewRecording ''win'' ''world'',
      LogFileFromPath ''m.obj'' (to_native (Recording ''win'' ''world'' 0))]"
  by (simp add: run_defs create_defs registry_defs)

text \<open>
  C5, as amended. For a name \<open>s/e\<close>, split at its first \<open>/\<close>, with \<open>e\<close> not empty and a scene registered
  under \<open>s\<close>: \<open>resizeArrow\<close> returns \<open>True\<close> only if an entity is registered under \<open>e\<close> and
  the first scene named \<open>s\<close> is among its scenes. When no entity is registered under \<open>e\<close>,
  or the entity found is not in that scene, it returns \<open>False\<close> and the state is the one
  before but for the error message, so that the payload of the entity is unchanged.
\<close>

theorem resizeArrow_in_scene:
  assumes "CHR ''/'' \<notin> set s" and "e \<noteq> []" and "first_scene_named g s i"
  shows "(fst (resizeArrow g (s @ CHR ''/'' # e) radius len) = Inr True \<longrightarrow>
            (\<exists>r. getEntity g e = Some r \<and> isEntityInScene (entity_at g r) i)) \<and>
         (e \<notin> entity_names g \<or>
            (\<exists>r. getEntity g e = Some r \<and> \<not> isEntityInScene (entity_at g r) i) \<longrightarrow>
            resizeArrow g (s @ CHR ''/'' # e) radius len =
              (Inr False,
               g\<lparr>logger := logger g @
                  [(ERROR, ResizeArrowNotInScene (s @ CHR ''/'' # e) e s)]\<rparr>))"
proof -
  have eq: "resizeArrow g (s @ CHR ''/'' # e) radius len =
      resizeArrow_scene g (s @ CHR ''/'' # e) radius len (length s) i"
    using assms by (rule resizeArrow_scene_prefix)
  show ?thesis
  proof (cases "getEntity g e")
    case None
    then show ?thesis
      by (simp add: eq resizeArrow_scene_def logger_error_def)
  next
    case (Some r)
    then have "e \<in> entity_names g"
      using getEntity_none[of g e] by simp
    with Some show ?thesis
      by (auto simp: eq resizeArrow_scene_def logger_error_def logger_info_def Let_def
          split: option.splits)
  qed
qed

theorem resizeArrow_in_scene_witness:
  "resizeArrow (run_all Gui_init [CreateScene ''s1'',
        Create (AddArrow ''arrowA'' 1 2 [255, 0, 0, 255])]) ''s1/arrowA'' 0.2 5 =
     (Inr False,
      (run_all Gui_init [CreateScene ''s1'', Create (AddArrow ''arrowA'' 1 2 [255, 0, 0, 255])])
        \<lparr>logger := [(INFO, CreateSceneNote), (INFO, ParseEntityDeferred ''ARROWS3D'' ''arrowA''),
           (ERROR, ResizeArrowNotInScene ''s1/arrowA'' ''arrowA'' ''s1'')]\<rparr>) \<and>
   fst (resizeArrow (run_all Gui_init [CreateScene ''s1'',
        Create (AddArrow ''s1/a'' 1 2 [255, 0, 0, 255])]) ''s1/a'' 0.2 5) = Inr True \<and>
   (\<exists>r. getEntity (run_all Gui_init [CreateScene ''s1'',
            Create (AddArrow ''s1/a'' 1 2 [255, 0, 0, 255])]) ''a'' = Some r \<and>
        isEntityInScene (entity_at (run_all Gui_init [CreateScene ''s1'',
            Create (AddArrow ''s1/a'' 1 2 [255, 0, 0, 255])]) r) 0)"
proof -
  let ?gB = "run_all Gui_init [CreateScene ''s1'', Create (AddArrow ''arrowA'' 1 2 [255, 0, 0, 255])]"
  let ?gA = "run_all Gui_init [CreateScene ''s1'', Create (AddArrow ''s1/a'' 1 2 [255, 0, 0, 255])]"
  have fB: "first_scene_named ?gB ''s1'' 0" and fA: "first_scene_named ?gA ''s1'' 0"
    by (simp_all add: run_defs create_defs registry_defs)
  have eB: "getEntity ?gB ''arrowA'' = Some (ARROWS3D, 0)"
    and nB: "\<not> isEntityInScene (entity_at ?gB (ARROWS3D, 0)) 0"
    by (simp_all add: run_defs create_defs registry_defs)
  have okA: "fst (resizeArrow ?gA (''s1'' @ CHR ''/'' # ''a'') 0.2 5) = Inr True"
    by (simp add: run_defs create_defs registry_defs resizeArrow_def resizeArrow_scene_def
        createArrow_def)
  have lB: "logger ?gB = [(INFO, CreateSceneNote), (INFO, ParseEntityDeferred ''ARROWS3D'' ''arrowA'')]"
    by (simp add: run_defs create_defs)
  have "resizeArrow ?gB (''s1'' @ CHR ''/'' # ''arrowA'') 0.2 5 =
      (Inr False, ?gB\<lparr>logger := logger ?gB @
         [(ERROR, ResizeArrowNotInScene (''s1'' @ CHR ''/'' # ''arrowA'') ''arrowA'' ''s1'')]\<rparr>)"
    using resizeArrow_in_scene[OF _ _ fB, of "''arrowA''" "0.2" 5] eB nB by auto
  moreover have "\<exists>r. getEntity ?gA ''a'' = Some r \<and> isEntityInScene (entity_at ?gA r) 0"
    using resizeArrow_in_scene[OF _ _ fA, of "''a''" "0.2" 5] okA by simp
  ultimately show ?thesis
    using okA lB by simp
qed

text \<open>
  The claim as written fails for a name \<open>s/e\<close> that \<open>resizeArrow\<close> does not split into \<open>s\<close>
  and \<open>e\<close>. With a scene registered under \<open>a/b\<close> and an arrow made by
  \<open>addArrow("a/b/e", ...)\<close>, the prefix before the first \<open>/\<close> is \<open>a\<close>, no scene, so the arrow
  is registered under its whole name and \<open>resizeArrow("a/b/e", 3, 4)\<close> finds it there and
  returns \<open>True\<close>, while no entity is registered under \<open>e\<close>. With a scene \<open>s\<close> and the name
  \<open>s/\<close>, whose remainder is empty, the same happens.
\<close>

theorem resizeArrow_in_scene_counterexample:
  "''a/b'' \<in> scene_names (run_all Gui_init
      [CreateScene ''a/b'', Create (AddArrow ''a/b/e'' 1 2 [255, 0, 0, 255])]) \<and>
   ''a/b/e'' = ''a/b'' @ CHR ''/'' # ''e'' \<and>
   fst (resizeArrow (run_all Gui_init
      [CreateScene ''a/b'', Create (AddArrow ''a/b/e'' 1 2 [255, 0, 0, 255])]) ''a/b/e'' 3 4) =
     Inr True \<and>
   getEntity (run_all Gui_init
      [CreateScene ''a/b'', Create (AddArrow ''a/b/e'' 1 2 [255, 0, 0, 255])]) ''e'' = None \<and>
   ''s'' \<in> scene_names (run_all Gui_init
      [CreateScene ''s'', Create (AddArrow ''s/'' 1 2 [255, 0, 0, 255])]) \<and>
   ''s/'' = ''s'' @ CHR ''/'' # '''' \<and>
   fst (resizeArrow (run_all Gui_init
      [CreateScene ''s'', Create (AddArrow ''s/'' 1 2 [255, 0, 0, 255])]) ''s/'' 3 4) =
     Inr True \<and>
   getEntity (run_all Gui_init
      [CreateScene ''s'', Create (AddArrow ''s/'' 1 2 [255, 0, 0, 255])]) '''' = None"
  by (simp add: run_defs create_defs registry_defs resizeArrow_def resizeArrow_bare_def
      createArrow_def)

text \<open>
  C6, as amended. For a name with no scene prefix (no \<open>/\<close>, or the first \<open>/\<close> last, or a
  prefix that is not a registered scene): when no entity is registered under the name,
  \<open>resizeArrow\<close> returns \<open>False\<close> with an error message; when the entity found has a payload
  with colours, its payload becomes the arrow rebuilt from the new radius and length and
  those colours, and the backend receives one \<open>rr.log\<close> call of the new payload for each
  scene of the entity, in their order, and nothing else (no call when it has no scene).
\<close>

theorem resizeArrow_bare_name:
  assumes "CHR ''/'' \<notin> set n \<or> (\<exists>p. n = p @ ''/'' \<and> CHR ''/'' \<notin> set p) \<or>
     (\<exists>p r. n = p @ CHR ''/'' # r \<and> CHR ''/'' \<notin> set p \<and> p \<notin> scene_names g)"
  shows "(n \<notin> entity_names g \<longrightarrow>
            resizeArrow g n radius len =
              (Inr False, g\<lparr>logger := logger g @ [(ERROR, ResizeArrowMissing n)]\<rparr>)) \<and>
         (getEntity g n = Some r \<and> archetype_colors (archetype (entity_at g r)) = Some colors \<longrightarrow>
            resizeArrow g n radius len =
              (Inr True,
               g\<lparr>entityList := (entityList g)
                    (fst r := (entityList g (fst r))
                       [snd r := (entity_at g r)\<lparr>archetype := createArrow n radius len colors\<rparr>]),
                 backend := backend g @
                    map (\<lambda>sc. Log n (createArrow n radius len colors) (rec (sceneList g ! sc)))
                      (scenes (entity_at g r)),
                 logger := logger g @
                    (if scenes (entity_at g r) = [] then [(INFO, ResizeArrowResized n)]
                     else map (\<lambda>sc. (INFO, ResizeArrowRelogged n (scene_name (sceneList g ! sc))))
                            (scenes (entity_at g r)))\<rparr>))"
proof (intro conjI impI)
  assume "n \<notin> entity_names g"
  then have "getEntity g n = None"
    by (simp add: getEntity_none)
  then show "resizeArrow g n radius len =
      (Inr False, g\<lparr>logger := logger g @ [(ERROR, ResizeArrowMissing n)]\<rparr>)"
    by (simp add: resizeArrow_whole_name[OF assms] resizeArrow_bare_def logger_error_def)
next
  assume a: "getEntity g n = Some r \<and> archetype_colors (archetype (entity_at g r)) = Some colors"
  then have n: "name (entity_at g r) = n"
    using getEntity_some[of g n r] by simp
  from a show "resizeArrow g n radius len =
      (Inr True,
       g\<lparr>entityList := (entityList g)
            (fst r := (entityList g (fst r))
               [snd r := (entity_at g r)\<lparr>archetype := createArrow n radius len colors\<rparr>]),
         backend := backend g @
            map (\<lambda>sc. Log n (createArrow n radius len colors) (rec (sceneList g ! sc)))
              (scenes (entity_at g r)),
         logger := logger g @
            (if scenes (entity_at g r) = [] then [(INFO, ResizeArrowResized n)]
             else map (\<lambda>sc. (INFO, ResizeArrowRelogged n (scene_name (sceneList g ! sc))))
                    (scenes (entity_at g r)))\<rparr>)"
    by (simp add: resizeArrow_whole_name[OF assms] resizeArrow_bare_def n relog_trace
        entity_update_def logger_info_def Let_def)
qed

theorem resizeArrow_bare_name_witness:
  "resizeArrow (run_all Gui_init [CreateScene ''w1'', CreateScene ''w2'', CreateWindow ''win'',
        AddSceneToWindow ''w1'' ''win'', Create (AddArrow ''arrowA'' 1 2 [255, 0, 0, 255]),
        AddToGroup ''arrowA'' ''w1'', AddToGroup ''arrowA'' ''w2'',
        Create (AddArrow ''lonely'' 1 1 [0, 0, 0, 255])]) ''nobody'' 3 4 =
     (Inr False,
      (run_all Gui_init [CreateScene ''w1'', CreateScene ''w2'', CreateWindow ''win'',
        AddSceneToWindow ''w1'' ''win'', Create (AddArrow ''arrowA'' 1 2 [255, 0, 0, 255]),
        AddToGroup ''arrowA'' ''w1'', AddToGroup ''arrowA'' ''w2'',
        Create (AddArrow ''lonely'' 1 1 [0, 0, 0, 255])])
      \<lparr>logger := logger (run_all Gui_init [CreateScene ''w1'', CreateScene ''w2'',
        CreateWindow ''win'', AddSceneToWindow ''w1'' ''win'',
        Create (AddArrow ''arrowA'' 1 2 [255, 0, 0, 255]),
        AddToGroup ''arrowA'' ''w1'', AddToGroup ''arrowA'' ''w2'',
        Create (AddArrow ''lonely'' 1 1 [0, 0, 0, 255])]) @
         [(ERROR, ResizeArrowMissing ''nobody'')]\<rparr>) \<and>
   backend (snd (resizeArrow (run_all Gui_init [CreateScene ''w1'', CreateScene ''w2'',
        CreateWindow ''win'', AddSceneToWindow ''w1'' ''win'',
        Create (AddArrow ''arrowA'' 1 2 [255, 0, 0, 255]),
        AddToGroup ''arrowA'' ''w1'', AddToGroup ''arrowA'' ''w2'',
        Create (AddArrow ''lonely'' 1 1 [0, 0, 0, 255])]) ''arrowA'' 3 4)) =
     [NewRecording ''win'' ''w1'',
      Log ''arrowA'' (Arrows3D [[1]] [[0, 0, 2]] [[255, 0, 0, 255]] [''arrowA''])
        (Some (Recording ''win'' ''w1'' 0)),
      Log ''arrowA'' (Arrows3D [[1]] [[0, 0, 2]] [[255, 0, 0, 255]] [''arrowA'']) None,
      Log ''arrowA'' (Arrows3D [[3]] [[0, 0, 4]] [[255, 0, 0, 255]] [''arrowA''])
        (Some (Recording ''win'' ''w1'' 0)),
      Log ''arrowA'' (Arrows3D [[3]] [[0, 0, 4]] [[255, 0, 0, 255]] [''arrowA'']) None] \<and>
   backend (snd (resizeArrow (run_all Gui_init [CreateScene ''w1'', CreateScene ''w2'',
        CreateWindow ''win'', AddSceneToWindow ''w1'' ''win'',
        Create (AddArrow ''arrowA'' 1 2 [255, 0, 0, 255]),
        AddToGroup ''arrowA'' ''w1'', AddToGroup ''arrowA'' ''w2'',
        Create (AddArrow ''lonely'' 1 1 [0, 0, 0, 255])]) ''lonely'' 3 4)) =
     [NewRecording ''win'' ''w1'',
      Log ''arrowA'' (Arrows3D [[1]] [[0, 0, 2]] [[255, 0, 0, 255]] [''arrowA''])
        (Some (Recording ''win'' ''w1'' 0)),
      Log ''arrowA'' (Arrows3D [[1]] [[0, 0, 2]] [[255, 0, 0, 255]] [''arrowA'']) None] \<and>
   entityList (snd (resizeArrow (run_all Gui_init [CreateScene ''w1'', CreateScene ''w2'',
        CreateWindow ''win'', AddSceneToWindow ''w1'' ''win'',
        Create (AddArrow ''arrowA'' 1 2 [255, 0, 0, 255]),
        AddToGroup ''arrowA'' ''w1'', AddToGroup ''arrowA'' ''w2'',
        Create (AddArrow ''lonely'' 1 1 [0, 0, 0, 255])]) ''lonely'' 3 4)) ARROWS3D =
     [\<lparr>name = ''arrowA'',
       archetype = Arrows3D [[1]] [[0, 0, 2]] [[255, 0, 0, 255]] [''arrowA''], scenes = [0, 1]\<rparr>,
      \<lparr>name = ''lonely'',
       archetype = Arrows3D [[3]] [[0, 0, 4]] [[0, 0, 0, 255]] [''lonely''], scenes = []\<rparr>]"
proof -
  let ?g = "run_all Gui_init [CreateScene ''w1'', CreateScene ''w2'', CreateWindow ''win'',
        AddSceneToWindow ''w1'' ''win'', Create (AddArrow ''arrowA'' 1 2 [255, 0, 0, 255]),
        AddToGroup ''arrowA'' ''w1'', AddToGroup ''arrowA'' ''w2'',
        Create (AddArrow ''lonely'' 1 1 [0, 0, 0, 255])]"
  have g: "?g =
      \<lparr>sceneList = [\<lparr>scene_name = ''w1'', rec = Some (Recording ''win'' ''w1'' 0)\<rparr>,
         \<lparr>scene_name = ''w2'', rec = None\<rparr>],
       windowList = [''win''],
       entityList = (\<lambda>_. [])
         (ARROWS3D := [\<lparr>name = ''arrowA'',
            archetype = Arrows3D [[1]] [[0, 0, 2]] [[255, 0, 0, 255]] [''arrowA''],
            scenes = [0, 1]\<rparr>,
           \<lparr>name = ''lonely'',
            archetype = Arrows3D [[1]] [[0, 0, 1]] [[0, 0, 0, 255]] [''lonely''], scenes = []\<rparr>]),
       backend = [NewRecording ''win'' ''w1'',
         Log ''arrowA'' (Arrows3D [[1]] [[0, 0, 2]] [[255, 0, 0, 255]] [''arrowA''])
           (Some (Recording ''win'' ''w1'' 0)),
         Log ''arrowA'' (Arrows3D [[1]] [[0, 0, 2]] [[255, 0, 0, 255]] [''arrowA'']) None],
       logger = [(INFO, CreateSceneNote), (INFO, CreateSceneNote), (INFO, CreateWindowNote),
         (INFO, ParseEntityDeferred ''ARROWS3D'' ''arrowA''),
         (INFO, LoggingNamed ''Arrows3D'' ''arrowA''), (INFO, LoggingNamed ''Arrows3D'' ''arrowA''),
         (INFO, ParseEntityDeferred ''ARROWS3D'' ''lonely'')]\<rparr>"
    by (simp add: run_defs create_defs registry_defs)
  have bare: "CHR ''/'' \<notin> set ''nobody''" "CHR ''/'' \<notin> set ''arrowA''" "CHR ''/'' \<notin> set ''lonely''"
    by simp_all
  have "getEntity ?g ''nobody'' = None"
    unfolding g by (simp add: registry_defs)
  then have no: "''nobody'' \<notin> entity_names ?g"
    by (rule iffD1[OF getEntity_none])
  have a: "getEntity ?g ''arrowA'' = Some (ARROWS3D, 0) \<and>
      archetype_colors (archetype (entity_at ?g (ARROWS3D, 0))) = Some [[255, 0, 0, 255]]"
    unfolding g by (simp add: registry_defs)
  have l: "getEntity ?g ''lonely'' = Some (ARROWS3D, 1) \<and>
      archetype_colors (archetype (entity_at ?g (ARROWS3D, 1))) = Some [[0, 0, 0, 255]]"
    unfolding g by (simp add: registry_defs)
  have 1: "resizeArrow ?g ''nobody'' 3 4 =
      (Inr False, ?g\<lparr>logger := logger ?g @ [(ERROR, ResizeArrowMissing ''nobody'')]\<rparr>)"
    using resizeArrow_bare_name[where n = "''nobody''" and g = ?g and radius = 3 and len = 4] bare(1) no by blast
  have 2: "resizeArrow ?g ''arrowA'' 3 4 =
      (Inr True,
       ?g\<lparr>entityList := (entityList ?g)
            (fst (ARROWS3D, 0::nat) := (entityList ?g (fst (ARROWS3D, 0::nat)))
               [snd (ARROWS3D, 0::nat) := (entity_at ?g (ARROWS3D, 0))
                  \<lparr>archetype := createArrow ''arrowA'' 3 4 [[255, 0, 0, 255]]\<rparr>]),
         backend := backend ?g @
            map (\<lambda>sc. Log ''arrowA'' (createArrow ''arrowA'' 3 4 [[255, 0, 0, 255]])
                   (rec (sceneList ?g ! sc)))
              (scenes (entity_at ?g (ARROWS3D, 0))),
         logger := logger ?g @
            (if scenes (entity_at ?g (ARROWS3D, 0)) = [] then [(INFO, ResizeArrowResized ''arrowA'')]
             else map (\<lambda>sc. (INFO, ResizeArrowRelogged ''arrowA'' (scene_name (sceneList ?g ! sc))))
                    (scenes (entity_at ?g (ARROWS3D, 0))))\<rparr>)"
    using resizeArrow_bare_name[where n = "''arrowA''" and g = ?g and r = "(ARROWS3D, 0)"
        and colors = "[[255, 0, 0, 255]]" and radius = 3 and len = 4]
      bare(2) a by blast
  have 3: "resizeArrow ?g ''lonely'' 3 4 =
      (Inr True,
       ?g\<lparr>entityList := (entityList ?g)
            (fst (ARROWS3D, 1::nat) := (entityList ?g (fst (ARROWS3D, 1::nat)))
               [snd (ARROWS3D, 1::nat) := (entity_at ?g (ARROWS3D, 1))
                  \<lparr>archetype := createArrow ''lonely'' 3 4 [[0, 0, 0, 255]]\<rparr>]),
         backend := backend ?g @
            map (\<lambda>sc. Log ''lonely'' (createArrow ''lonely'' 3 4 [[0, 0, 0, 255]])
                   (rec (sceneList ?g ! sc)))
              (scenes (entity_at ?g (ARROWS3D, 1))),
         logger := logger ?g @
            (if scenes (entity_at ?g (ARROWS3D, 1)) = [] then [(INFO, ResizeArrowResized ''lonely'')]
             else map (\<lambda>sc. (INFO, ResizeArrowRelogged ''lonely'' (scene_name (sceneList ?g ! sc))))
                    (scenes (entity_at ?g (ARROWS3D, 1))))\<rparr>)"
    using resizeArrow_bare_name[where n = "''lonely''" and g = ?g and r = "(ARROWS3D, 1)"
        and colors = "[[0, 0, 0, 255]]" and radius = 3 and len = 4]
      bare(3) l by blast
  show ?thesis
    unfolding 1 2 3 unfolding g
    by (simp add: entity_at_def createArrow_def)
qed

text \<open>
  The claim as written fails when the entity found has no colours to copy: a face made by
  \<open>addTriangleFace\<close> is a \<open>Mesh3D\<close>, \<open>entity.archetype.colors\<close> raises, and nothing is
  replaced.
\<close>

theorem resizeArrow_bare_name_counterexample:
  "getEntity (run_all Gui_init
      [Create (AddTriangleFace ''tri'' [0, 0, 0] [1, 0, 0] [0, 1, 0] [255, 0, 0, 255])]) ''tri'' =
     Some (MESH3D, 0) \<and>
   resizeArrow (run_all Gui_init
      [Create (AddTriangleFace ''tri'' [0, 0, 0] [1, 0, 0] [0, 1, 0] [255, 0, 0, 255])])
      ''tri'' 1 2 =
     (Inl AttributeError, run_all Gui_init
      [Create (AddTriangleFace ''tri'' [0, 0, 0] [1, 0, 0] [0, 1, 0] [255, 0, 0, 255])])"
  by (simp add: run_defs create_defs registry_defs resizeArrow_def resizeArrow_bare_def)

text \<open>
  C7, as amended. The recording handle of a scene after any call of the interface: it is
  the one before, except after \<open>addSceneToWindow\<close> with the name of that scene (the first of
  that name) and a registered window, which sets the newly acquired handle whether or not
  the scene had one. So no call but a binding changes a handle, and a second binding
  replaces it.
\<close>

theorem recording_after_call:
  assumes "i < length (sceneList g)"
  shows "rec (sceneList (run g c) ! i) =
     (case c of
        AddSceneToWindow s w \<Rightarrow>
          if first_scene_named g s i \<and> w \<in> set (windowList g)
          then Some (Recording w s (length (backend g))) else rec (sceneList g ! i)
      | _ \<Rightarrow> rec (sceneList g ! i))"
  using assms
  by (cases c)
    (simp_all add: create_sceneList resizeArrow_sceneList addToGroup_sceneList
      addSceneToWindow_rec createWindow_def createScene_def nth_append)

theorem recording_after_call_witness:
  "rec (sceneList (run (run_all Gui_init [CreateScene ''world'', CreateWindow ''win'',
      CreateWindow ''win2'', AddSceneToWindow ''world'' ''win''])
      (AddSceneToWindow ''world'' ''win2'')) ! 0) =
     Some (Recording ''win2'' ''world'' 1) \<and>
   rec (sceneList (run (run_all Gui_init [CreateScene ''world'', CreateWindow ''win'',
      CreateWindow ''win2'', AddSceneToWindow ''world'' ''win''])
      (Create (AddBox ''world/b1'' 1 1 1 [255, 0, 0, 255]))) ! 0) =
     Some (Recording ''win'' ''world'' 0) \<and>
   rec (sceneList (run (run_all Gui_init [CreateScene ''world'', CreateWindow ''win'',
      CreateWindow ''win2'', AddSceneToWindow ''world'' ''win''])
      (AddSceneToWindow ''world'' ''nowhere'')) ! 0) =
     Some (Recording ''win'' ''world'' 0)"
proof -
  let ?g = "run_all Gui_init [CreateScene ''world'', CreateWindow ''win'',
      CreateWindow ''win2'', AddSceneToWindow ''world'' ''win'']"
  have g: "?g =
      \<lparr>sceneList = [\<lparr>scene_name = ''world'', rec = Some (Recording ''win'' ''world'' 0)\<rparr>],
       windowList = [''win'', ''win2''], entityList = (\<lambda>_. []),
       backend = [NewRecording ''win'' ''world''],
       logger = [(INFO, CreateSceneNote), (INFO, CreateWindowNote), (INFO, CreateWindowNote)]\<rparr>"
    by (simp add: run_defs create_defs)
  have i: "0 < length (sceneList ?g)"
    unfolding g by simp
  have f: "first_scene_named ?g ''world'' 0"
    unfolding g by (simp add: first_scene_named_def)
  show ?thesis
    using recording_after_call[OF i, of "AddSceneToWindow ''world'' ''win2''"]
      recording_after_call[OF i, of "Create (AddBox ''world/b1'' 1 1 1 [255, 0, 0, 255])"]
      recording_after_call[OF i, of "AddSceneToWindow ''world'' ''nowhere''"] f
    unfolding g by simp
qed

text \<open>
  The claim as written fails: binding the scene \<open>world\<close> to \<open>win\<close> and then to \<open>win2\<close>
  replaces the handle acquired for \<open>win\<close>.
\<close>

theorem recording_after_call_counterexample:
  "rec (sceneList (run_all Gui_init [CreateScene ''world'', CreateWindow ''win'',
      CreateWindow ''win2'', AddSceneToWindow ''world'' ''win'']) ! 0) =
     Some (Recording ''win'' ''world'' 0) \<and>
   rec (sceneList (run (run_all Gui_init [CreateScene ''world'', CreateWindow ''win'',
      CreateWindow ''win2'', AddSceneToWindow ''world'' ''win''])
      (AddSceneToWindow ''world'' ''win2'')) ! 0) =
     Some (Recording ''win2'' ''world'' 1)"
  by (simp add: run_defs create_defs)

text \<open>
  C8. \<open>addSceneToWindow\<close> returns \<open>False\<close> when no scene is registered under the scene name,
  and when the window name is not registered, and then changes nothing but the logger.
  Otherwise it acquires a recording from the backend with the window name as application
  id and the scene name as recording id, attaches it to the first scene of that name and
  returns \<open>True\<close>. The witness runs \<open>createScene("world")\<close>, \<open>createWindow("win")\<close> and the
  binding: the scene then has a recording handle.
\<close>

theorem addSceneToWindow_binds:
  "(s \<notin> scene_names g \<longrightarrow>
      addSceneToWindow g s w =
        (Inr False, g\<lparr>logger := logger g @ [(ERROR, UnknownSceneName s)]\<rparr>)) \<and>
   (s \<in> scene_names g \<and> w \<notin> set (windowList g) \<longrightarrow>
      addSceneToWindow g s w =
        (Inr False, g\<lparr>logger := logger g @ [(ERROR, UnknownWindowName w)]\<rparr>)) \<and>
   (first_scene_named g s i \<and> w \<in> set (windowList g) \<longrightarrow>
      addSceneToWindow g s w =
        (Inr True,
         g\<lparr>sceneList := (sceneList g)
              [i := (sceneList g ! i)\<lparr>rec := Some (Recording w s (length (backend g)))\<rparr>],
           backend := backend g @ [NewRecording w s]\<rparr>))"
proof (intro conjI impI)
  assume "s \<notin> scene_names g"
  then show "addSceneToWindow g s w =
      (Inr False, g\<lparr>logger := logger g @ [(ERROR, UnknownSceneName s)]\<rparr>)"
    by (simp add: addSceneToWindow_def getSceneIndex_none logger_error_def)
next
  assume "s \<in> scene_names g \<and> w \<notin> set (windowList g)"
  then show "addSceneToWindow g s w =
      (Inr False, g\<lparr>logger := logger g @ [(ERROR, UnknownWindowName w)]\<rparr>)"
    by (simp add: addSceneToWindow_def getSceneIndex_none logger_error_def)
next
  assume a: "first_scene_named g s i \<and> w \<in> set (windowList g)"
  then have "getSceneIndex g s = int i" by (simp add: getSceneIndex_first)
  with a show "addSceneToWindow g s w =
      (Inr True,
       g\<lparr>sceneList := (sceneList g)
            [i := (sceneList g ! i)\<lparr>rec := Some (Recording w s (length (backend g)))\<rparr>],
         backend := backend g @ [NewRecording w s]\<rparr>)"
    by (simp add: addSceneToWindow_def rr_invoke_def setRec_def)
qed

theorem addSceneToWindow_binds_witness:
  "addSceneToWindow Gui_init ''world'' ''win'' =
     (Inr False, Gui_init\<lparr>logger := [(ERROR, UnknownSceneName ''world'')]\<rparr>) \<and>
   fst (addSceneToWindow (run_all Gui_init [CreateScene ''world'']) ''world'' ''win'') = Inr False \<and>
   logger (snd (addSceneToWindow (run_all Gui_init [CreateScene ''world'']) ''world'' ''win'')) =
     [(INFO, CreateSceneNote), (ERROR, UnknownWindowName ''win'')] \<and>
   fst (addSceneToWindow (run_all Gui_init [CreateScene ''world'', CreateWindow ''win''])
          ''world'' ''win'') = Inr True \<and>
   rec (sceneList (snd (addSceneToWindow
          (run_all Gui_init [CreateScene ''world'', CreateWindow ''win'']) ''world'' ''win'')) ! 0) =
     Some (Recording ''win'' ''world'' 0) \<and>
   backend (snd (addSceneToWindow
          (run_all Gui_init [CreateScene ''world'', CreateWindow ''win'']) ''world'' ''win'')) =
     [NewRecording ''win'' ''world'']"
proof -
  let ?g1 = "run_all Gui_init [CreateScene ''world'']"
  let ?g2 = "run_all Gui_init [CreateScene ''world'', CreateWindow ''win'']"
  have 1: "''world'' \<notin> scene_names Gui_init"
    by (simp add: scene_names_def Gui_init_def)
  have 2: "''world'' \<in> scene_names ?g1 \<and> ''win'' \<notin> set (windowList ?g1)"
    by (simp add: scene_names_def run_defs)
  have 3: "first_scene_named ?g2 ''world'' 0 \<and> ''win'' \<in> set (windowList ?g2)"
    by (simp add: first_scene_named_def run_defs)
  show ?thesis
    using addSceneToWindow_binds[of "''world''" Gui_init "''win''" 0] 1
      addSceneToWindow_binds[of "''world''" ?g1 "''win''" 0] 2
      addSceneToWindow_binds[of "''world''" ?g2 "''win''" 0] 3
    by (simp add: run_defs)
qed



text \<open>
  C10. \<open>addToGroup\<close> checks that the scene and the entity are registered, and nothing
  else: on a registered entity and a registered scene with no recording it reports no
  error. For the six rerun payloads it adds the scene to the entity, calls \<open>rr.log\<close> with
  the recording \<open>None\<close> and returns \<open>True\<close>; for a \<open>MeshFromPath\<close> payload the read of
  \<open>to_native\<close> on \<open>None\<close> raises \<open>AttributeError\<close>.
\<close>

theorem addToGroup_unbound_scene:
  assumes "first_scene_named g s i" and "rec (sceneList g ! i) = None"
    and "getEntity g e = Some r"
  shows "addToGroup g e s =
     (case archetype (entity_at g r) of
        MeshFromPath path \<Rightarrow> (Inl AttributeError, g)
      | a \<Rightarrow>
          (Inr True,
           g\<lparr>entityList := (entityList g)
                (fst r := (entityList g (fst r))[snd r := addScene (entity_at g r) i]),
             backend := backend g @ [Log e a None],
             logger := logger g @ [(INFO, LoggingNamed (logged_as a) e)]\<rparr>))"
  using assms(2)
  by (simp add: addToGroup_found[OF assms(1,3)] logArchetype_found[OF assms(1,3)]
      split: archetype.splits)

theorem addToGroup_unbound_scene_witness:
  "fst (addToGroup (run_all Gui_init [CreateScene ''world'',
          Create (AddSphere ''s1'' 2 [0, 255, 0, 255]), Create (AddMeshFromPath ''m'' ''m.obj'')])
        ''s1'' ''world'') = Inr True \<and>
   backend (snd (addToGroup (run_all Gui_init [CreateScene ''world'',
          Create (AddSphere ''s1'' 2 [0, 255, 0, 255]), Create (AddMeshFromPath ''m'' ''m.obj'')])
        ''s1'' ''world'')) =
     [Log ''s1'' (Points3D [[0, 0, 0]] [[2]] [[0, 255, 0, 255]] [''s1'']) None] \<and>
   entityList (snd (addToGroup (run_all Gui_init [CreateScene ''world'',
          Create (AddSphere ''s1'' 2 [0, 255, 0, 255]), Create (AddMeshFromPath ''m'' ''m.obj'')])
        ''s1'' ''world'')) POINTS3D =
     [\<lparr>name = ''s1'', archetype = Points3D [[0, 0, 0]] [[2]] [[0, 255, 0, 255]] [''s1''],
       scenes = [0]\<rparr>] \<and>
   addToGroup (run_all Gui_init [CreateScene ''world'',
          Create (AddSphere ''s1'' 2 [0, 255, 0, 255]), Create (AddMeshFromPath ''m'' ''m.obj'')])
        ''m'' ''world'' =
     (Inl AttributeError, run_all Gui_init [CreateScene ''world'',
          Create (AddSphere ''s1'' 2 [0, 255, 0, 255]), Create (AddMeshFromPath ''m'' ''m.obj'')])"
proof -
  let ?g = "run_all Gui_init [CreateScene ''world'',
          Create (AddSphere ''s1'' 2 [0, 255, 0, 255]), Create (AddMeshFromPath ''m'' ''m.obj'')]"
  have g: "?g =
      \<lparr>sceneList = [\<lparr>scene_name = ''world'', rec = None\<rparr>], windowList = [],
       entityList = (\<lambda>_. [])
         (POINTS3D := [\<lparr>name = ''s1'',
            archetype = Points3D [[0, 0, 0]] [[2]] [[0, 255, 0, 255]] [''s1''], scenes = []\<rparr>],
          MESH_FROM_PATH := [\<lparr>name = ''m'', archetype = MeshFromPath ''m.obj'', scenes = []\<rparr>]),
       backend = [],
       logger = [(INFO, CreateSceneNote), (INFO, ParseEntityDeferred ''POINTS3D'' ''s1''),
         (INFO, ParseEntityDeferred ''MESH_FROM_PATH'' ''m'')]\<rparr>"
    by (simp add: run_defs create_defs)
  have f: "first_scene_named ?g ''world'' 0" and u: "rec (sceneList ?g ! 0) = None"
    unfolding g by (simp_all add: first_scene_named_def)
  have s1: "getEntity ?g ''s1'' = Some (POINTS3D, 0)"
    and m: "getEntity ?g ''m'' = Some (MESH_FROM_PATH, 0)"
    unfolding g by (simp_all add: getEntity_def archetypes_def)
  show ?thesis
    using addToGroup_unbound_scene[OF f u s1] addToGroup_unbound_scene[OF f u m]
    unfolding g by (simp add: entity_at_def addScene_def)
qed

end
